theory Spec2Isabelle
  imports Main
begin

section \<open>JavaScript values used by the parser\<close>

text \<open>
  A JavaScript string is a sequence of UTF-16 code units. The end-of-input sentinel
  \<open>CharacterReader.EOF\<close> is \<open>undefined\<close>, the value an array read out of range gives too:
  both are \<open>None\<close>.
\<close>

type_synonym jchar = nat
type_synonym jstring = "jchar list"

definition utf16 :: "string \<Rightarrow> jstring" where
  "utf16 s = map of_char s"

datatype error =
    Error string    \<comment> \<open>\<open>throw new Error(msg)\<close>\<close>
  | TypeError       \<comment> \<open>a property read on \<open>undefined\<close>, a call of what is not a function\<close>

text \<open>
  helper/Char.ts: \<open>class Char extends String\<close>. A \<open>Char\<close> is an object, made by
  \<open>new Char(string.charAt(0))\<close>: it wraps one code unit and it has an identity, the reference
  \<open>ident\<close> below. Two \<open>Char\<close>s made by two calls of \<open>Char.valueOf\<close> are two objects, whatever
  they wrap. \<open>Char.NULL\<close> is the one object the class makes for U+0000 when it is loaded; it
  has the reference 0, and every object made later has another one.
\<close>

datatype Char = Char (ident: nat) (charCode: jchar)

definition Char_NULL :: Char where
  "Char_NULL = Char 0 0"

text \<open>\<open>Char.valueOf(string)\<close>, for a string of one code unit, at the reference the new object gets.\<close>

definition Char_valueOf :: "nat \<Rightarrow> jstring \<Rightarrow> Char" where
  "Char_valueOf a s = Char a (hd s)"

text \<open>
  The methods of a \<open>Char\<close> read the code unit: \<open>toString()\<close> is \<open>this[0]\<close>,
  \<open>equals(char)\<close> is \<open>this.charAt(0) === char.charAt(0)\<close> on two primitive strings, and
  \<open>in(array)\<close> is \<open>array.includes(this.toString())\<close> on an array of primitive strings.
\<close>

definition toString :: "Char \<Rightarrow> jstring" where
  "toString ch = [charCode ch]"

definition equals :: "Char \<Rightarrow> jstring \<Rightarrow> bool" where
  "equals ch s = (toString ch = take 1 s)"

definition Char_in :: "Char \<Rightarrow> jstring list \<Rightarrow> bool" where
  "Char_in ch array = (toString ch \<in> set array)"

text \<open>
  The values that the code compares: \<open>undefined\<close>, a primitive string, a \<open>Char\<close> object.
  \<open>===\<close>, which \<open>switch\<close> applies to its case labels, holds of two primitive strings with
  the same code units and of an object and itself; an object and a primitive string are never
  \<open>===\<close>. \<open>Array.prototype.includes\<close> compares in the same way. \<open>==\<close> converts an object
  to its primitive string before it compares it with a string.
\<close>

datatype jsval = Undefined | Str jstring | Obj Char

fun strict_eq :: "jsval \<Rightarrow> jsval \<Rightarrow> bool" where
  "strict_eq Undefined Undefined = True"
| "strict_eq (Str a) (Str b) = (a = b)"
| "strict_eq (Obj a) (Obj b) = (ident a = ident b)"
| "strict_eq x y = False"

fun loose_eq :: "jsval \<Rightarrow> jsval \<Rightarrow> bool" where
  "loose_eq (Obj a) (Str b) = (toString a = b)"
| "loose_eq (Str a) (Obj b) = (a = toString b)"
| "loose_eq x y = strict_eq x y"

definition array_includes :: "jsval list \<Rightarrow> jsval \<Rightarrow> bool" where
  "array_includes array v = list_ex (\<lambda>x. strict_eq x v) array"

text \<open>What a read of the buffer gives, as a value: \<open>undefined\<close> or the \<open>Char\<close> object.\<close>

definition val_of :: "Char option \<Rightarrow> jsval" where
  "val_of c = (case c of None \<Rightarrow> Undefined | Some ch \<Rightarrow> Obj ch)"

text \<open>\<open>xs[i]\<close>: \<open>undefined\<close> out of range.\<close>

definition at :: "'a list \<Rightarrow> int \<Rightarrow> 'a option" where
  "at xs i = (if 0 \<le> i \<and> i < int (length xs) then Some (xs ! nat i) else None)"

text \<open>
  \<open>Array.prototype.slice(start, end)\<close>: a negative index counts from the end, both indices
  are clamped to the array, and the result is empty when start is not before end.
\<close>

definition rel_index :: "nat \<Rightarrow> int \<Rightarrow> nat" where
  "rel_index len i = (if i < 0 then nat (max (int len + i) 0) else min (nat i) len)"

definition slice :: "'a list \<Rightarrow> int \<Rightarrow> int \<Rightarrow> 'a list" where
  "slice xs start end =
     (let k = rel_index (length xs) start; f = rel_index (length xs) end
      in take (f - k) (drop k xs))"

definition slice_from :: "'a list \<Rightarrow> int \<Rightarrow> 'a list" where
  "slice_from xs start = drop (rel_index (length xs) start) xs"

text \<open>\<open>Array.prototype.findIndex\<close>: the first index whose element satisfies the predicate, or -1.\<close>

fun findIndex :: "('a \<Rightarrow> bool) \<Rightarrow> 'a list \<Rightarrow> int" where
  "findIndex P [] = -1"
| "findIndex P (x # xs) =
     (if P x then 0 else (let i = findIndex P xs in if i = -1 then -1 else i + 1))"

text \<open>
  \<open>Array.prototype.join(sep)\<close> on an array of \<open>Char\<close>, each element converted by its
  \<open>toString()\<close>; \<open>join()\<close> separates with a comma.
\<close>

fun join :: "jstring \<Rightarrow> Char list \<Rightarrow> jstring" where
  "join sep [] = []"
| "join sep [c] = toString c"
| "join sep (c # d # cs) = toString c @ sep @ join sep (d # cs)"

definition comma :: jstring where
  "comma = [44]"

text \<open>
  \<open>String.prototype.indexOf(searchString, position)\<close>: the position is clamped to the
  string, the empty search string is found at once, the result is -1 when there is no match.
\<close>

fun search :: "jstring \<Rightarrow> jstring \<Rightarrow> nat \<Rightarrow> int" where
  "search seq [] k = (if seq = [] then int k else -1)"
| "search seq (x # xs) k =
     (if take (length seq) (x # xs) = seq then int k else search seq xs (Suc k))"

definition indexOf :: "jstring \<Rightarrow> jstring \<Rightarrow> int \<Rightarrow> int" where
  "indexOf s seq pos = (let k = nat (max 0 (min pos (int (length s)))) in search seq (drop k s) k)"

text \<open>
  JavaScript numbers are IEEE doubles. On non-negative integers the only effect is rounding
  to 53 significant bits, to nearest with ties to even, once a result reaches \<open>2^53\<close>.
\<close>

fun bits :: "nat \<Rightarrow> nat" where
  "bits n = (if n = 0 then 0 else Suc (bits (n div 2)))"

declare bits.simps [simp del]

definition fl :: "nat \<Rightarrow> nat" where
  "fl x =
     (if x < 2 ^ 53 then x
      else (let k = bits x - 53; q = x div 2 ^ k; r = x mod 2 ^ k; h = 2 ^ (k - 1)
            in if h < r \<or> (r = h \<and> odd q) then (q + 1) * 2 ^ k else q * 2 ^ k))"

text \<open>helper/Helper.ts: \<open>isLetter\<close> and \<open>isDigit\<close> test \<open>str.toString()\<close>, here one code unit,
  against \<open>/^[a-zA-Z]+$/\<close> and \<open>/^[0-9]+$/\<close>; \<open>consumeHexSequence\<close> tests \<open>/^[0-9a-fA-F]/\<close>.\<close>

definition isLetter :: "Char \<Rightarrow> bool" where
  "isLetter ch = (let c = charCode ch in (97 \<le> c \<and> c \<le> 122) \<or> (65 \<le> c \<and> c \<le> 90))"

definition isDigit :: "Char \<Rightarrow> bool" where
  "isDigit ch = (let c = charCode ch in 48 \<le> c \<and> c \<le> 57)"

definition isHex :: "Char \<Rightarrow> bool" where
  "isHex ch = (let c = charCode ch in (48 \<le> c \<and> c \<le> 57) \<or> (97 \<le> c \<and> c \<le> 102) \<or> (65 \<le> c \<and> c \<le> 70))"


section \<open>CharacterReader: the string cache\<close>

definition maxStringCacheLen :: int where
  "maxStringCacheLen = 12"

definition stringCacheSize :: nat where
  "stringCacheSize = 512"

text \<open>
  \<open>CharacterReader.rangeEquals(charBuf, start, count, cached)\<close>. The loop
  \<open>while (count-- !== 0)\<close> runs \<open>cached.length\<close> times; \<open>charBuf[i++].equals\<close> on a
  missing element is a TypeError.
\<close>

fun rangeEquals_loop :: "Char list \<Rightarrow> int \<Rightarrow> jstring \<Rightarrow> error + bool" where
  "rangeEquals_loop charBuf i [] = Inr True"
| "rangeEquals_loop charBuf i (d # ds) =
     (case at charBuf i of
        None \<Rightarrow> Inl TypeError
      | Some c \<Rightarrow> if \<not> equals c [d] then Inr False else rangeEquals_loop charBuf (i + 1) ds)"

definition rangeEquals :: "Char list \<Rightarrow> int \<Rightarrow> int \<Rightarrow> jstring \<Rightarrow> error + bool" where
  "rangeEquals charBuf start count cached =
     (if count = int (length cached) then rangeEquals_loop charBuf start cached else Inr False)"

text \<open>
  The hash: \<open>Array(count).fill(1).map((_, i) => charBuf[start + i])
  .reduce((v, c) => 31 * v + c.charCode, 0)\<close>. Reading \<open>charCode\<close> of a missing element
  is a TypeError.
\<close>

fun range_chars :: "Char list \<Rightarrow> int \<Rightarrow> nat \<Rightarrow> Char list option" where
  "range_chars charBuf i 0 = Some []"
| "range_chars charBuf i (Suc n) =
     (case at charBuf i of
        None \<Rightarrow> None
      | Some c \<Rightarrow> (case range_chars charBuf (i + 1) n of
                     None \<Rightarrow> None
                   | Some cs \<Rightarrow> Some (c # cs)))"

definition hash_of :: "Char list \<Rightarrow> nat" where
  "hash_of cs = foldl (\<lambda>v c. fl (fl (31 * v) + charCode c)) 0 cs"

text \<open>
  \<open>CharacterReader.cacheString(charBuf, stringCache, start, count)\<close>. The result is the
  string returned and the cache as the call leaves it. \<open>hash & (stringCacheSize - 1)\<close> keeps
  the low nine bits of the hash.
\<close>

definition cacheString ::
  "Char list \<Rightarrow> (nat \<rightharpoonup> jstring) \<Rightarrow> int \<Rightarrow> int \<Rightarrow> error + (jstring \<times> (nat \<rightharpoonup> jstring))" where
  "cacheString charBuf stringCache start count =
     (if count > maxStringCacheLen then Inr (join [] (slice charBuf start count), stringCache)
      else if count < 1 then Inr ([], stringCache)
      else
        (case range_chars charBuf start (nat count) of
           None \<Rightarrow> Inl TypeError
         | Some cs \<Rightarrow>
             (let index = hash_of cs mod stringCacheSize;
                  fresh = join comma (slice charBuf start count);
                  miss = Inr (fresh, stringCache(index \<mapsto> fresh))
              in case stringCache index of
                   None \<Rightarrow> miss
                 | Some cached \<Rightarrow>
                     (case rangeEquals charBuf start count cached of
                        Inl e \<Rightarrow> Inl e
                      | Inr True \<Rightarrow> Inr (cached, stringCache)
                      | Inr False \<Rightarrow> miss))))"


section \<open>CharacterReader\<close>

text \<open>
  The constructor sets \<open>reader = input\<close>, \<open>charBuf = input.split('').map((str) =>
  Char.valueOf(str))\<close>, one new object for each code unit, and \<open>bufLength = charBuf.length\<close>,
  none of which changes afterwards; \<open>readerPos\<close> stays 0 and \<open>bufferUp()\<close> has an empty
  body. The record keeps the fields that change and \<open>charBuf\<close>; the string \<open>reader\<close> is
  the code units of \<open>charBuf\<close>. The objects of the buffer get the references 1, 2, ... in the
  order of the input.
\<close>

record CharacterReader =
  charBuf :: "Char list"
  stringCache :: "nat \<rightharpoonup> jstring"
  bufPos :: int
  bufMark :: int

fun valueOf_each :: "nat \<Rightarrow> jstring \<Rightarrow> Char list" where
  "valueOf_each a [] = []"
| "valueOf_each a (c # cs) = Char_valueOf a [c] # valueOf_each (a + 1) cs"

definition new_CharacterReader :: "jstring \<Rightarrow> CharacterReader" where
  "new_CharacterReader input =
     \<lparr>charBuf = valueOf_each 1 input, stringCache = Map.empty, bufPos = 0, bufMark = -1\<rparr>"

definition reader_string :: "CharacterReader \<Rightarrow> jstring" where
  "reader_string r = map charCode (charBuf r)"

text \<open>
  A reference that no object of the buffer has and that is not the one of \<open>Char.NULL\<close>:
  where a method makes a new \<open>Char\<close>, the new object gets it.
\<close>

definition new_ref :: "CharacterReader \<Rightarrow> nat" where
  "new_ref r = Suc (foldr max (map ident (charBuf r)) 0)"

definition bufLength :: "CharacterReader \<Rightarrow> int" where
  "bufLength r = int (length (charBuf r))"

definition pos :: "CharacterReader \<Rightarrow> int" where
  "pos r = 0 + bufPos r"

definition isEmpty :: "CharacterReader \<Rightarrow> bool" where
  "isEmpty r = (bufPos r \<ge> bufLength r)"

definition getAtPos :: "CharacterReader \<Rightarrow> Char option" where
  "getAtPos r = at (charBuf r) (bufPos r)"

definition current :: "CharacterReader \<Rightarrow> Char option" where
  "current r = (if isEmpty r then None else getAtPos r)"

definition consume :: "CharacterReader \<Rightarrow> Char option \<times> CharacterReader" where
  "consume r =
     (let val = (if isEmpty r then None else getAtPos r)
      in (val, r\<lparr>bufPos := bufPos r + 1\<rparr>))"

text \<open>
  An operation that can throw returns, next to the error or the value, the reader as the
  call leaves it.
\<close>

definition unconsume :: "CharacterReader \<Rightarrow> (error + unit) \<times> CharacterReader" where
  "unconsume r =
     (if bufPos r < 1 then (Inl (Error ''WTF: No buffer left to unconsume.''), r)
      else (Inr (), r\<lparr>bufPos := bufPos r - 1\<rparr>))"

definition advance :: "CharacterReader \<Rightarrow> CharacterReader" where
  "advance r = r\<lparr>bufPos := bufPos r + 1\<rparr>"

text \<open>The body of \<open>mark()\<close> is commented out in the source: the call changes nothing.\<close>

definition mark :: "CharacterReader \<Rightarrow> CharacterReader" where
  "mark r = r"

definition unmark :: "CharacterReader \<Rightarrow> CharacterReader" where
  "unmark r = r\<lparr>bufMark := -1\<rparr>"

definition rewindToMark :: "CharacterReader \<Rightarrow> (error + unit) \<times> CharacterReader" where
  "rewindToMark r =
     (if bufMark r = -1 then (Inl (Error ''Mark invalid''), r)
      else (Inr (), unmark (r\<lparr>bufPos := bufMark r\<rparr>)))"

definition nextIndexOf :: "CharacterReader \<Rightarrow> jstring \<Rightarrow> int" where
  "nextIndexOf r c =
     (let index = indexOf (reader_string r) c (bufPos r)
      in if index = -1 then -1 else index - bufPos r)"

text \<open>The call \<open>cacheString(this.charBuf, this.stringCache, start, count)\<close> on a reader.\<close>

definition cached ::
  "CharacterReader \<Rightarrow> int \<Rightarrow> int \<Rightarrow> (error + jstring) \<times> CharacterReader" where
  "cached r start count =
     (case cacheString (charBuf r) (stringCache r) start count of
        Inl e \<Rightarrow> (Inl e, r)
      | Inr (s, cache) \<Rightarrow> (Inr s, r\<lparr>stringCache := cache\<rparr>))"

definition consumeToEnd :: "CharacterReader \<Rightarrow> (error + jstring) \<times> CharacterReader" where
  "consumeToEnd r =
     (case cached r (bufPos r) (bufLength r - bufPos r) of
        (Inl e, r') \<Rightarrow> (Inl e, r')
      | (Inr data, r') \<Rightarrow> (Inr data, r'\<lparr>bufPos := bufLength r'\<rparr>))"

text \<open>
  \<open>consumeTo(c)\<close> takes a \<open>Char\<close> or a string and works on \<open>seq = c.toString()\<close>; for
  a \<open>Char\<close> that is the string of its one code unit, for which
  \<open>Char.isChar(c) || c.length === 1\<close> holds.
\<close>

definition consumeTo :: "CharacterReader \<Rightarrow> jstring \<Rightarrow> (error + jstring) \<times> CharacterReader" where
  "consumeTo r seq =
     (let offset = nextIndexOf r seq
      in if offset \<noteq> -1 then
           (case cached r (bufPos r) offset of
              (Inl e, r') \<Rightarrow> (Inl e, r')
            | (Inr consumed, r') \<Rightarrow> (Inr consumed, r'\<lparr>bufPos := bufPos r' + offset\<rparr>))
         else if length seq = 1 \<or> bufLength r - bufPos r < int (length seq) then consumeToEnd r
         else
           (let endPos = bufLength r - int (length seq) + 1
            in case cached r (bufPos r) (endPos - bufPos r) of
                 (Inl e, r') \<Rightarrow> (Inl e, r')
               | (Inr consumed, r') \<Rightarrow> (Inr consumed, r'\<lparr>bufPos := endPos\<rparr>)))"

definition returnConsume :: "CharacterReader \<Rightarrow> int \<Rightarrow> (error + jstring) \<times> CharacterReader" where
  "returnConsume r index =
     (let pos = bufPos r; r1 = r\<lparr>bufPos := bufPos r + max index 0\<rparr>
      in if index = -1 then (Inr [], r1) else cached r1 pos index)"

text \<open>
  \<open>consumeToAny(chars)\<close>: \<open>chars.includes(ch)\<close> looks for the object \<open>ch\<close> of the buffer
  in the array. The array holds whatever the caller put there, \<open>Char\<close> objects or, as in the
  state \<open>Comment\<close>, primitive strings.
\<close>

definition consumeToAny :: "CharacterReader \<Rightarrow> jsval list \<Rightarrow> (error + jstring) \<times> CharacterReader" where
  "consumeToAny r chars =
     returnConsume r (findIndex (\<lambda>ch. array_includes chars (Obj ch)) (slice_from (charBuf r) (bufPos r)))"

definition consumeToAnySorted :: "CharacterReader \<Rightarrow> jsval list \<Rightarrow> (error + jstring) \<times> CharacterReader" where
  "consumeToAnySorted r chars = consumeToAny r chars"

text \<open>
  \<open>consumeData()\<close> makes its array at each call: two new \<open>Char\<close>s and \<open>Char.NULL\<close>.
\<close>

definition consumeData :: "CharacterReader \<Rightarrow> (error + jstring) \<times> CharacterReader" where
  "consumeData r =
     (let chars = [Obj (Char_valueOf (new_ref r) (utf16 ''&'')),
                   Obj (Char_valueOf (new_ref r + 1) (utf16 ''<'')),
                   Obj Char_NULL]
      in consumeToAny r chars)"

definition consumeAttributeQuoted :: "CharacterReader \<Rightarrow> bool \<Rightarrow> (error + jstring) \<times> CharacterReader" where
  "consumeAttributeQuoted r single =
     returnConsume r
       (findIndex (\<lambda>ch. if equals ch (utf16 ''&'') \<or> strict_eq (Obj ch) (Obj Char_NULL) then True
                        else if equals ch [39] \<and> single then True
                        else if equals ch [34] \<and> \<not> single then True
                        else False)
          (slice_from (charBuf r) (bufPos r)))"

definition consumeRawData :: "CharacterReader \<Rightarrow> (error + jstring) \<times> CharacterReader" where
  "consumeRawData r =
     returnConsume r
       (findIndex (\<lambda>ch. equals ch (utf16 ''<'') \<or> strict_eq (Obj ch) (Obj Char_NULL))
          (slice_from (charBuf r) (bufPos r)))"

definition consumeTagName :: "CharacterReader \<Rightarrow> (error + jstring) \<times> CharacterReader" where
  "consumeTagName r =
     (let array = [[9], [10], [13], [12], [32], utf16 ''/'', utf16 ''>'', utf16 ''<'']
      in returnConsume r (findIndex (\<lambda>ch. Char_in ch array) (slice_from (charBuf r) (bufPos r))))"

definition consumeLetterSequence :: "CharacterReader \<Rightarrow> (error + jstring) \<times> CharacterReader" where
  "consumeLetterSequence r =
     returnConsume r (findIndex (\<lambda>ch. \<not> isLetter ch) (slice_from (charBuf r) (bufPos r)))"

definition consumeDigitSequence :: "CharacterReader \<Rightarrow> (error + jstring) \<times> CharacterReader" where
  "consumeDigitSequence r =
     returnConsume r (findIndex (\<lambda>ch. \<not> isDigit ch) (slice_from (charBuf r) (bufPos r)))"

definition consumeLetterThenDigitSequence :: "CharacterReader \<Rightarrow> (error + jstring) \<times> CharacterReader" where
  "consumeLetterThenDigitSequence r =
     (let pos = bufPos r;
          index = findIndex (\<lambda>ch. \<not> isLetter ch) (slice_from (charBuf r) (bufPos r));
          r1 = r\<lparr>bufPos := bufPos r + max index 0\<rparr>;
          r2 = (if \<not> isEmpty r1
                then (let index = findIndex (\<lambda>ch. \<not> isDigit ch) (slice_from (charBuf r1) (bufPos r1))
                      in r1\<lparr>bufPos := bufPos r1 + max index 0\<rparr>)
                else r1)
      in cached r2 pos (bufPos r2 - pos))"

definition consumeHexSequence :: "CharacterReader \<Rightarrow> (error + jstring) \<times> CharacterReader" where
  "consumeHexSequence r =
     returnConsume r (findIndex (\<lambda>ch. \<not> isHex ch) (slice_from (charBuf r) (bufPos r)))"

text \<open>
  \<open>seq.split('').some((ch, i) => !this.charBuf[pos + i].equals(ch))\<close>: true at the first
  code unit that differs; \<open>equals\<close> on a missing element is a TypeError.
\<close>

fun some_differs :: "Char list \<Rightarrow> int \<Rightarrow> jstring \<Rightarrow> error + bool" where
  "some_differs buf i [] = Inr False"
| "some_differs buf i (ch # rest) =
     (case at buf i of
        None \<Rightarrow> Inl TypeError
      | Some c \<Rightarrow> if \<not> equals c [ch] then Inr True else some_differs buf (i + 1) rest)"

text \<open>
  \<open>matchesIgnoreCase(seq)\<close> compares code units with \<open>equals\<close>, as \<open>matches\<close> does for a
  string: the comparison is case-sensitive.
\<close>

definition matchesIgnoreCase :: "CharacterReader \<Rightarrow> jstring \<Rightarrow> error + bool" where
  "matchesIgnoreCase r seq =
     (let scanLength = int (length seq)
      in if scanLength > bufLength r - bufPos r then Inr False
         else (case some_differs (charBuf r) (bufPos r) seq of
                 Inl e \<Rightarrow> Inl e
               | Inr b \<Rightarrow> Inr (\<not> b)))"

text \<open>\<open>matches(c)\<close> for a \<open>Char\<close> (\<open>c.equals(this.getAtPos())\<close>) and for a string.\<close>

definition matches_char :: "CharacterReader \<Rightarrow> Char \<Rightarrow> error + bool" where
  "matches_char r c =
     (if isEmpty r then Inr False
      else (case getAtPos r of None \<Rightarrow> Inl TypeError | Some d \<Rightarrow> Inr (equals c (toString d))))"

definition matches :: "CharacterReader \<Rightarrow> jstring \<Rightarrow> error + bool" where
  "matches r c =
     (let scanLength = int (length c)
      in if scanLength > bufLength r - bufPos r then Inr False
         else (let pos = bufPos r
               in case some_differs (charBuf r) pos c of
                    Inl e \<Rightarrow> Inl e
                  | Inr b \<Rightarrow> Inr (\<not> b)))"

definition matchesLetter :: "CharacterReader \<Rightarrow> error + bool" where
  "matchesLetter r =
     (if isEmpty r then Inr False
      else (case getAtPos r of None \<Rightarrow> Inl TypeError | Some c \<Rightarrow> Inr (isLetter c)))"

definition matchesDigit :: "CharacterReader \<Rightarrow> error + bool" where
  "matchesDigit r =
     (if isEmpty r then Inr False
      else (case getAtPos r of None \<Rightarrow> Inl TypeError | Some c \<Rightarrow> Inr (isDigit c)))"

definition matchConsume :: "CharacterReader \<Rightarrow> jstring \<Rightarrow> (error + bool) \<times> CharacterReader" where
  "matchConsume r seq =
     (case matchesIgnoreCase r seq of
        Inl e \<Rightarrow> (Inl e, r)
      | Inr True \<Rightarrow> (Inr True, r\<lparr>bufPos := bufPos r + int (length seq)\<rparr>)
      | Inr False \<Rightarrow> (Inr False, r))"

section \<open>Attributes\<close>

text \<open>
  \<open>String.prototype.trim\<close> strips the ECMAScript white space and line terminator code
  units from both ends.
\<close>

definition isTrimSpace :: "jchar \<Rightarrow> bool" where
  "isTrimSpace c =
     ((9 \<le> c \<and> c \<le> 13) \<or> c = 32 \<or> c = 160 \<or> c = 5760 \<or> (8192 \<le> c \<and> c \<le> 8202)
      \<or> c = 8232 \<or> c = 8233 \<or> c = 8239 \<or> c = 8287 \<or> c = 12288 \<or> c = 65279)"

definition trim :: "jstring \<Rightarrow> jstring" where
  "trim s = rev (dropWhile isTrimSpace (rev (dropWhile isTrimSpace s)))"

text \<open>
  nodes/Attribute.ts: the constructor trims the key and stores \<open>val || ''\<close>.
  nodes/Attributes.ts: \<open>add(name, value)\<close> pushes \<open>createAttr(name, `${value}`)\<close>; the
  template literal turns \<open>null\<close> into the four characters \<open>null\<close>.
\<close>

record Attribute =
  key :: jstring
  val :: jstring

definition new_Attribute :: "jstring \<Rightarrow> jstring \<Rightarrow> Attribute" where
  "new_Attribute k v = \<lparr>key = trim k, val = (if v = [] then [] else v)\<rparr>"

type_synonym Attributes = "Attribute list"

definition template :: "jstring option \<Rightarrow> jstring" where
  "template v = (case v of None \<Rightarrow> utf16 ''null'' | Some s \<Rightarrow> s)"

definition add :: "jstring \<Rightarrow> jstring option \<Rightarrow> Attributes \<Rightarrow> Attributes" where
  "add name v as = as @ [new_Attribute name (template v)]"


section \<open>Tokens\<close>

text \<open>
  parse/Token.ts. A \<open>StringBuilder\<close> is the string it holds. \<open>normalName\<close>, the lower-cased
  copy of the tag name kept for the tree builder, is left out: the tokeniser never reads it.
\<close>

record Tag =
  tagName :: "jstring option"
  pendingAttributeName :: "jstring option"
  pendingAttributeValue :: jstring
  pendingAttributeValueS :: "jstring option"
  hasEmptyAttributeValue :: bool
  hasPendingAttributeValue :: bool
  selfClosing :: bool
  attributes :: "Attributes option"

definition MaxAttributes :: nat where
  "MaxAttributes = 512"

definition new_Tag :: Tag where
  "new_Tag =
     \<lparr>tagName = None, pendingAttributeName = None, pendingAttributeValue = [],
      pendingAttributeValueS = None, hasEmptyAttributeValue = False,
      hasPendingAttributeValue = False, selfClosing = False, attributes = None\<rparr>"

definition Tag_reset :: "Tag \<Rightarrow> Tag" where
  "Tag_reset tg =
     tg\<lparr>tagName := None, pendingAttributeName := None, pendingAttributeValueS := None,
        hasEmptyAttributeValue := False, hasPendingAttributeValue := False,
        selfClosing := False, attributes := None, pendingAttributeValue := []\<rparr>"

definition newAttribute :: "Tag \<Rightarrow> Tag" where
  "newAttribute tg =
     (let as = (case attributes tg of None \<Rightarrow> [] | Some as \<Rightarrow> as);
          as' =
            (case pendingAttributeName tg of
               None \<Rightarrow> as
             | Some n \<Rightarrow>
                 if length as < MaxAttributes then
                   (let name = trim n
                    in if length name > 0 then
                         (let v = (if hasPendingAttributeValue tg
                                   then (if length (pendingAttributeValue tg) > 0
                                         then Some (pendingAttributeValue tg)
                                         else pendingAttributeValueS tg)
                                   else if hasEmptyAttributeValue tg then Some []
                                   else None)
                          in add name v as)
                       else as)
                 else as)
      in tg\<lparr>attributes := Some as', pendingAttributeName := None,
            hasEmptyAttributeValue := False, hasPendingAttributeValue := False,
            pendingAttributeValue := [], pendingAttributeValueS := None\<rparr>)"

definition hasAttributes :: "Tag \<Rightarrow> bool" where
  "hasAttributes tg = (attributes tg \<noteq> None)"

definition finaliseTag :: "Tag \<Rightarrow> Tag" where
  "finaliseTag tg = (if pendingAttributeName tg \<noteq> None then newAttribute tg else tg)"

text \<open>\<open>get_tagName()\<close> asserts \<open>Assert.isFalse(Helper.isEmpty(this.tagName))\<close>.\<close>

definition get_tagName :: "Tag \<Rightarrow> error + jstring" where
  "get_tagName tg =
     (case tagName tg of
        None \<Rightarrow> Inl (Error ''must be false'')
      | Some n \<Rightarrow> if n = [] then Inl (Error ''must be false'') else Inr n)"

definition set_tagName :: "jstring \<Rightarrow> Tag \<Rightarrow> Tag" where
  "set_tagName name tg = tg\<lparr>tagName := Some name\<rparr>"

text \<open>
  \<open>String.prototype.replace\<close> with a string pattern replaces the first occurrence. Called
  on a \<open>Char\<close> it works on the string of the \<open>Char\<close> and gives a primitive string, so
  \<open>appendTagName(c)\<close> and \<open>appendAttributeName(c)\<close> with a \<open>Char\<close> are the calls with
  \<open>toString c\<close>.
\<close>

fun replace_first :: "jchar \<Rightarrow> jchar \<Rightarrow> jstring \<Rightarrow> jstring" where
  "replace_first a b [] = []"
| "replace_first a b (c # cs) = (if c = a then b # cs else c # replace_first a b cs)"

definition nullChar :: jchar where
  "nullChar = 0"

definition replacementChar :: jchar where
  "replacementChar = 65533"

definition appendTagName :: "jstring \<Rightarrow> Tag \<Rightarrow> Tag" where
  "appendTagName str tg =
     (let str = replace_first nullChar replacementChar str
      in tg\<lparr>tagName := (case tagName tg of None \<Rightarrow> Some str | Some n \<Rightarrow> Some (n @ str))\<rparr>)"

definition appendAttributeName :: "jstring \<Rightarrow> Tag \<Rightarrow> Tag" where
  "appendAttributeName str tg =
     (let str = replace_first nullChar replacementChar str
      in tg\<lparr>pendingAttributeName :=
              (case pendingAttributeName tg of None \<Rightarrow> Some str | Some n \<Rightarrow> Some (n @ str))\<rparr>)"

definition ensureAttributeValue :: "Tag \<Rightarrow> Tag" where
  "ensureAttributeValue tg =
     (let tg = tg\<lparr>hasPendingAttributeValue := True\<rparr>
      in case pendingAttributeValueS tg of
           None \<Rightarrow> tg
         | Some s \<Rightarrow> tg\<lparr>pendingAttributeValue := pendingAttributeValue tg @ s,
                          pendingAttributeValueS := None\<rparr>)"

text \<open>
  \<open>appendAttributeValue\<close> tests \<open>typeof append\<close>: a primitive string goes to
  \<open>pendingAttributeValueS\<close> while the builder is empty; a \<open>Char\<close>, which is an object, or
  an array of strings (\<open>typeof append[0] === 'string'\<close> for both) is appended to the
  builder.
\<close>

definition appendAttributeValue :: "jstring \<Rightarrow> Tag \<Rightarrow> Tag" where
  "appendAttributeValue str tg =
     (let tg = ensureAttributeValue tg
      in if length (pendingAttributeValue tg) = 0 then tg\<lparr>pendingAttributeValueS := Some str\<rparr>
         else tg\<lparr>pendingAttributeValue := pendingAttributeValue tg @ str\<rparr>)"

definition appendAttributeValue_Char :: "Char \<Rightarrow> Tag \<Rightarrow> Tag" where
  "appendAttributeValue_Char c tg =
     (let tg = ensureAttributeValue tg
      in tg\<lparr>pendingAttributeValue := pendingAttributeValue tg @ toString c\<rparr>)"

definition appendAttributeValue_chars :: "jstring \<Rightarrow> Tag \<Rightarrow> Tag" where
  "appendAttributeValue_chars cs tg =
     (let tg = ensureAttributeValue tg
      in if cs = [] then tg else tg\<lparr>pendingAttributeValue := pendingAttributeValue tg @ cs\<rparr>)"

definition setEmptyAttributeValue :: "Tag \<Rightarrow> Tag" where
  "setEmptyAttributeValue tg = tg\<lparr>hasEmptyAttributeValue := True\<rparr>"

definition set_selfClosing :: "Tag \<Rightarrow> Tag" where
  "set_selfClosing tg = tg\<lparr>selfClosing := True\<rparr>"

record Comment =
  data :: jstring
  dataS :: "jstring option"
  bogus :: bool

definition new_Comment :: Comment where
  "new_Comment = \<lparr>data = [], dataS = None, bogus = False\<rparr>"

definition Comment_reset :: "Comment \<Rightarrow> Comment" where
  "Comment_reset c = c\<lparr>data := [], dataS := None, bogus := False\<rparr>"

definition getData :: "Comment \<Rightarrow> jstring" where
  "getData c = (case dataS c of Some s \<Rightarrow> s | None \<Rightarrow> data c)"

definition ensureData :: "Comment \<Rightarrow> Comment" where
  "ensureData c =
     (case dataS c of
        Some s \<Rightarrow> c\<lparr>data := data c @ s, dataS := None\<rparr>
      | None \<Rightarrow> c)"

definition Comment_append :: "jstring \<Rightarrow> Comment \<Rightarrow> Comment" where
  "Comment_append str c =
     (let c = ensureData c
      in if length (data c) = 0 then c\<lparr>dataS := Some str\<rparr>
         else c\<lparr>data := data c @ str\<rparr>)"

text \<open>
  A token as a caller of \<open>read()\<close> sees it at the moment it is returned (the pending objects
  are reused and mutated by later reads).
\<close>

datatype Token =
    StartTag Tag
  | EndTag Tag
  | CommentToken Comment
  | Character jstring
  | EOF


section \<open>Tokeniser\<close>

text \<open>
  parse/TokeniserState.ts holds one object per state. The states below are \<open>Data\<close>, in
  which a tokeniser starts, and the states of tags, attributes and comments. The RCDATA,
  RAWTEXT, script-data and PLAINTEXT states are entered only when a tree builder calls
  \<open>transition\<close>. The doctype and CDATA states are entered from \<open>MarkupDeclarationOpen\<close>
  after a call of \<open>r.matchConsumeIgnoreCase\<close>, a method that \<open>CharacterReader\<close> does not
  have: the call is a TypeError and these states are never entered.
\<close>

datatype TokeniserState =
    Data
  | CharacterReferenceInData
  | TagOpen
  | EndTagOpen
  | TagName
  | BeforeAttributeName
  | AttributeName
  | AfterAttributeName
  | BeforeAttributeValue
  | AttributeValue_doubleQuoted
  | AttributeValue_singleQuoted
  | AttributeValue_unquoted
  | AfterAttributeValue_quoted
  | SelfClosingStartTag
  | BogusComment
  | MarkupDeclarationOpen
  | CommentStart
  | CommentStartDash
  | Comment
  | CommentEndDash
  | CommentEnd
  | CommentEndBang

text \<open>
  A parse error is a position and a message. The three message templates of
  \<open>Tokeniser.error\<close>, \<open>eofError\<close> and \<open>characterReferenceError\<close> are kept as constructors
  with the values they interpolate; the template of \<open>error\<close> interpolates
  \<open>this.reader.current()\<close>, that is the string of the \<open>Char\<close> or \<open>undefined\<close>.
\<close>

datatype message =
    Message string
  | UnexpectedCharacter "jchar option" TokeniserState
  | UnexpectedEOF TokeniserState
  | InvalidCharacterReference string

record ParseError =
  errorPos :: int
  errorMsg :: message

text \<open>
  Modelled from the spec: \<open>ParseErrorList\<close> (parse/ParseError.ts is not among the sources),
  a bounded ordered sequence of errors that stops recording once its cap is reached.
\<close>

record ParseErrorList =
  errorList :: "ParseError list"
  maxSize :: nat

definition canAddError :: "ParseErrorList \<Rightarrow> bool" where
  "canAddError es = (length (errorList es) < maxSize es)"

definition push :: "ParseError \<Rightarrow> ParseErrorList \<Rightarrow> ParseErrorList" where
  "push e es = es\<lparr>errorList := errorList es @ [e]\<rparr>"

text \<open>
  \<open>tagPending\<close> refers to \<open>startPending\<close> or to \<open>endPending\<close>; \<open>emitPending\<close> refers to one
  of the pending tokens or to a new \<open>EOF\<close>.
\<close>

datatype tag_ref = StartPending | EndPending

datatype token_ref = TagRef tag_ref | CommentPending | NewEOF

record Tokeniser =
  reader :: CharacterReader
  errors :: ParseErrorList
  state :: TokeniserState
  emitPending :: "token_ref option"
  isEmitPending :: bool
  charsString :: "jstring option"
  charsBuilder :: jstring
  dataBuffer :: jstring
  tagPending :: "tag_ref option"
  startPending :: Tag
  endPending :: Tag
  charPending :: "jstring option"
  commentPending :: Comment
  lastStartTag :: "jstring option"

definition new_Tokeniser :: "CharacterReader \<Rightarrow> ParseErrorList \<Rightarrow> Tokeniser" where
  "new_Tokeniser r es =
     \<lparr>reader = r, errors = es, state = Data, emitPending = None, isEmitPending = False,
      charsString = None, charsBuilder = [], dataBuffer = [], tagPending = None,
      startPending = new_Tag, endPending = new_Tag, charPending = None,
      commentPending = new_Comment, lastStartTag = None\<rparr>"

definition tag_of :: "tag_ref \<Rightarrow> Tokeniser \<Rightarrow> Tag" where
  "tag_of ref t = (case ref of StartPending \<Rightarrow> startPending t | EndPending \<Rightarrow> endPending t)"

definition tag_upd :: "tag_ref \<Rightarrow> (Tag \<Rightarrow> Tag) \<Rightarrow> Tokeniser \<Rightarrow> Tokeniser" where
  "tag_upd ref f t =
     (case ref of
        StartPending \<Rightarrow> t\<lparr>startPending := f (startPending t)\<rparr>
      | EndPending \<Rightarrow> t\<lparr>endPending := f (endPending t)\<rparr>)"

text \<open>A method call on \<open>t.tagPending\<close>; a TypeError while no tag has been created.\<close>

definition on_tagPending :: "(Tag \<Rightarrow> Tag) \<Rightarrow> Tokeniser \<Rightarrow> error + Tokeniser" where
  "on_tagPending f t =
     (case tagPending t of None \<Rightarrow> Inl TypeError | Some ref \<Rightarrow> Inr (tag_upd ref f t))"

definition on_commentPending :: "(Comment \<Rightarrow> Comment) \<Rightarrow> Tokeniser \<Rightarrow> Tokeniser" where
  "on_commentPending f t = t\<lparr>commentPending := f (commentPending t)\<rparr>"

definition andThen :: "error + 'a \<Rightarrow> ('a \<Rightarrow> error + 'b) \<Rightarrow> error + 'b" where
  "andThen x f = (case x of Inl e \<Rightarrow> Inl e | Inr v \<Rightarrow> f v)"

definition error_at :: "message \<Rightarrow> Tokeniser \<Rightarrow> Tokeniser" where
  "error_at m t =
     (if canAddError (errors t)
      then t\<lparr>errors := push \<lparr>errorPos = pos (reader t), errorMsg = m\<rparr> (errors t)\<rparr>
      else t)"

text \<open>\<open>error(state)\<close>, \<open>error(message)\<close> and \<open>eofError(state)\<close>.\<close>

definition error :: "TokeniserState \<Rightarrow> Tokeniser \<Rightarrow> Tokeniser" where
  "error st t = error_at (UnexpectedCharacter (map_option charCode (current (reader t))) st) t"

definition error_message :: "string \<Rightarrow> Tokeniser \<Rightarrow> Tokeniser" where
  "error_message m t = error_at (Message m) t"

definition eofError :: "TokeniserState \<Rightarrow> Tokeniser \<Rightarrow> Tokeniser" where
  "eofError st t = error_at (UnexpectedEOF st) t"

text \<open>
  \<open>emitToken\<close>: \<open>Assert.isFalse(this.isEmitPending)\<close> throws when a token is pending
  already. \<open>token.isStartTag()\<close> reads \<open>token.type\<close>, and the \<open>type\<close> getter of \<open>Comment\<close>
  throws.
\<close>

definition emitToken :: "token_ref \<Rightarrow> Tokeniser \<Rightarrow> error + Tokeniser" where
  "emitToken token t =
     (if isEmitPending t then Inl (Error ''must be false'')
      else
        (let t = t\<lparr>emitPending := Some token, isEmitPending := True\<rparr>
         in case token of
              TagRef StartPending \<Rightarrow>
                (case get_tagName (startPending t) of
                   Inl e \<Rightarrow> Inl e
                 | Inr n \<Rightarrow> Inr (t\<lparr>lastStartTag := Some n\<rparr>))
            | TagRef EndPending \<Rightarrow>
                (if hasAttributes (endPending t)
                 then Inr (error_message ''Attributes incorrectly present on end tag'' t)
                 else Inr t)
            | CommentPending \<Rightarrow> Inl (Error ''Method not implemented.'')
            | NewEOF \<Rightarrow> Inr t))"

definition emitString :: "jstring \<Rightarrow> Tokeniser \<Rightarrow> Tokeniser" where
  "emitString str t =
     (case charsString t of
        None \<Rightarrow> t\<lparr>charsString := Some str\<rparr>
      | Some cs \<Rightarrow>
          (let t = (if length (charsBuilder t) = 0 then t\<lparr>charsBuilder := charsBuilder t @ cs\<rparr> else t)
           in t\<lparr>charsBuilder := charsBuilder t @ str\<rparr>))"

definition emitChars :: "jstring \<Rightarrow> Tokeniser \<Rightarrow> Tokeniser" where
  "emitChars chars t = emitString chars t"

definition transition :: "TokeniserState \<Rightarrow> Tokeniser \<Rightarrow> Tokeniser" where
  "transition st t = t\<lparr>state := st\<rparr>"

definition advanceTransition :: "TokeniserState \<Rightarrow> Tokeniser \<Rightarrow> Tokeniser" where
  "advanceTransition st t = t\<lparr>reader := advance (reader t), state := st\<rparr>"

definition createTagPending :: "bool \<Rightarrow> Tokeniser \<Rightarrow> Tokeniser" where
  "createTagPending start t =
     (if start then t\<lparr>startPending := Tag_reset (startPending t), tagPending := Some StartPending\<rparr>
      else t\<lparr>endPending := Tag_reset (endPending t), tagPending := Some EndPending\<rparr>)"

definition emitTagPending :: "Tokeniser \<Rightarrow> error + Tokeniser" where
  "emitTagPending t =
     (case tagPending t of
        None \<Rightarrow> Inl TypeError
      | Some ref \<Rightarrow> emitToken (TagRef ref) (tag_upd ref finaliseTag t))"

definition createCommentPending :: "Tokeniser \<Rightarrow> Tokeniser" where
  "createCommentPending t = on_commentPending Comment_reset t"

definition emitCommentPending :: "Tokeniser \<Rightarrow> error + Tokeniser" where
  "emitCommentPending t = emitToken CommentPending t"

definition createBogusCommentPending :: "Tokeniser \<Rightarrow> Tokeniser" where
  "createBogusCommentPending t =
     on_commentPending (\<lambda>c. c\<lparr>bogus := True\<rparr>) (on_commentPending Comment_reset t)"

definition createTempBuffer :: "Tokeniser \<Rightarrow> Tokeniser" where
  "createTempBuffer t = t\<lparr>dataBuffer := []\<rparr>"

text \<open>\<open>consumeCharacterReference\<close> has the body \<open>throw new Error('Method not implemented.')\<close>.\<close>

definition consumeCharacterReference ::
  "jchar option \<Rightarrow> bool \<Rightarrow> Tokeniser \<Rightarrow> error + (jstring option \<times> Tokeniser)" where
  "consumeCharacterReference arg0 arg1 t = Inl (Error ''Method not implemented.'')"

text \<open>Reader calls made on the tokeniser's reader.\<close>

definition r_consume :: "Tokeniser \<Rightarrow> Char option \<times> Tokeniser" where
  "r_consume t = (case consume (reader t) of (c, r) \<Rightarrow> (c, t\<lparr>reader := r\<rparr>))"

definition r_unconsume :: "Tokeniser \<Rightarrow> error + Tokeniser" where
  "r_unconsume t =
     (case unconsume (reader t) of (Inl e, r) \<Rightarrow> Inl e | (Inr u, r) \<Rightarrow> Inr (t\<lparr>reader := r\<rparr>))"

definition r_advance :: "Tokeniser \<Rightarrow> Tokeniser" where
  "r_advance t = t\<lparr>reader := advance (reader t)\<rparr>"

definition r_string ::
  "(CharacterReader \<Rightarrow> (error + jstring) \<times> CharacterReader) \<Rightarrow> Tokeniser \<Rightarrow> error + (jstring \<times> Tokeniser)" where
  "r_string f t =
     (case f (reader t) of (Inl e, r) \<Rightarrow> Inl e | (Inr s, r) \<Rightarrow> Inr (s, t\<lparr>reader := r\<rparr>))"

definition r_matchConsume :: "jstring \<Rightarrow> Tokeniser \<Rightarrow> error + (bool \<times> Tokeniser)" where
  "r_matchConsume seq t =
     (case matchConsume (reader t) seq of
        (Inl e, r) \<Rightarrow> Inl e
      | (Inr b, r) \<Rightarrow> Inr (b, t\<lparr>reader := r\<rparr>))"


text \<open>
  The static fields of \<open>TokeniserState\<close> that the states use as case labels are taken as
  the values they stand for: \<open>nullChar\<close> is the primitive string of U+0000
  (\<open>Char.NULL.charAt(0)\<close>), \<open>replacementChar\<close> and \<open>replacementStr\<close> are the primitive
  string of U+FFFD. The initialiser of \<open>eof\<close> is \<open>CharacterReader.EOF.charAt(0)\<close>, a call
  on \<open>undefined\<close> that gives the field no value: \<open>eof\<close> is \<open>undefined\<close>, as the sentinel
  \<open>CharacterReader.EOF\<close> is, the value \<open>r.current()\<close> and \<open>r.consume()\<close> return at the
  end of the input.
\<close>

abbreviation (input) lit :: "string \<Rightarrow> jsval" where
  "lit s \<equiv> Str (utf16 s)"

definition nullStr :: jsval where
  "nullStr = Str [nullChar]"

definition eof :: jsval where
  "eof = Undefined"

text \<open>
  \<open>switch (c) { case label: ... }\<close> on what the reader returned: the test \<open>c === label\<close>.
  \<open>isWs\<close> is the run of case labels \<open>'\t'\<close>, \<open>'\n'\<close>, \<open>'\r'\<close>, \<open>'\f'\<close> and \<open>' '\<close>.
\<close>

definition is_case :: "Char option \<Rightarrow> jsval \<Rightarrow> bool" where
  "is_case c label = strict_eq (val_of c) label"

definition isWs :: "Char option \<Rightarrow> bool" where
  "isWs c = (is_case c (Str [9]) \<or> is_case c (Str [10]) \<or> is_case c (Str [13])
             \<or> is_case c (Str [12]) \<or> is_case c (lit '' ''))"

text \<open>
  \<open>attributeNameCharsSorted\<close> and \<open>attributeValueUnquoted\<close> are initialised by
  \<open>Char.arrayOf([...])\<close>. Neither class \<open>Char\<close> of helper/Char.ts defines \<open>arrayOf\<close>: the
  call is a TypeError and the fields never get a value. A state that reads one of them throws
  that error.
\<close>

definition Char_arrayOf :: "jstring list \<Rightarrow> error + jsval list" where
  "Char_arrayOf array = Inl TypeError"

definition attributeNameCharsSorted :: "error + jsval list" where
  "attributeNameCharsSorted =
     Char_arrayOf [[9], [10], [12], [13], [32], [34], [39], utf16 ''/'', utf16 ''<'', utf16 ''='',
                   utf16 ''>'']"

definition attributeValueUnquoted :: "error + jsval list" where
  "attributeValueUnquoted =
     Char_arrayOf [[0], [9], [10], [12], [13], [32], [34], utf16 ''&'', [39], utf16 ''<'',
                   utf16 ''='', utf16 ''>'', [96]]"


section \<open>The states\<close>

text \<open>
  Each state is the body of its \<open>read(t, r)\<close> callback, its \<open>switch\<close> an \<open>if\<close> chain in
  the order of the case labels. Where the branches below the label \<open>eof\<close> use \<open>c\<close>, the
  test \<open>c === eof\<close> is the case distinction on \<open>c\<close>: it holds when \<open>c\<close> is \<open>undefined\<close>,
  and otherwise \<open>c\<close> is a \<open>Char\<close>.
\<close>

definition Data_read :: "Tokeniser \<Rightarrow> error + Tokeniser" where
  "Data_read t =
     (let c = current (reader t)
      in if is_case c (lit ''&'') then Inr (advanceTransition CharacterReferenceInData t)
         else if is_case c (lit ''<'') then Inr (advanceTransition TagOpen t)
         else if is_case c nullStr then
           (case r_consume (error Data t) of
              (None, t) \<Rightarrow> Inl TypeError
            | (Some d, t) \<Rightarrow> Inr (emitString (toString d) t))
         else if is_case c eof then emitToken NewEOF t
         else andThen (r_string consumeData t) (\<lambda>(data, t). Inr (emitString data t)))"

definition readCharRef :: "TokeniserState \<Rightarrow> Tokeniser \<Rightarrow> error + Tokeniser" where
  "readCharRef next t =
     andThen (consumeCharacterReference None False t)
       (\<lambda>(c, t). Inr (transition next
                        (case c of
                           None \<Rightarrow> emitString (utf16 ''&'') t
                         | Some cs \<Rightarrow> emitChars cs t)))"

definition CharacterReferenceInData_read :: "Tokeniser \<Rightarrow> error + Tokeniser" where
  "CharacterReferenceInData_read t = readCharRef Data t"

definition TagOpen_read :: "Tokeniser \<Rightarrow> error + Tokeniser" where
  "TagOpen_read t =
     (let c = current (reader t)
      in if is_case c (lit ''!'') then Inr (advanceTransition MarkupDeclarationOpen t)
         else if is_case c (lit ''/'') then Inr (advanceTransition EndTagOpen t)
         else if is_case c (lit ''?'') then Inr (advanceTransition BogusComment (createBogusCommentPending t))
         else andThen (matchesLetter (reader t))
                (\<lambda>b. if b then Inr (transition TagName (createTagPending True t))
                      else Inr (transition Data (emitString (utf16 ''<'') (error TagOpen t)))))"

definition EndTagOpen_read :: "Tokeniser \<Rightarrow> error + Tokeniser" where
  "EndTagOpen_read t =
     (if isEmpty (reader t)
      then Inr (transition Data (emitString (utf16 ''</'') (eofError EndTagOpen t)))
      else andThen (matchesLetter (reader t))
             (\<lambda>b. if b then Inr (transition TagName (createTagPending False t))
                   else andThen (matches (reader t) (utf16 ''>''))
                          (\<lambda>b. if b then Inr (advanceTransition Data (error EndTagOpen t))
                                else Inr (advanceTransition BogusComment
                                            (createBogusCommentPending (error EndTagOpen t))))))"

definition TagName_read :: "Tokeniser \<Rightarrow> error + Tokeniser" where
  "TagName_read t =
     andThen (r_string consumeTagName t)
       (\<lambda>(name, t). andThen (on_tagPending (appendTagName name) t)
          (\<lambda>t. case r_consume t of (c, t) \<Rightarrow>
                  if isWs c then Inr (transition BeforeAttributeName t)
                  else if is_case c (lit ''/'') then Inr (transition SelfClosingStartTag t)
                  else if is_case c (lit ''<'') then
                    andThen (r_unconsume t)
                      (\<lambda>t. andThen (emitTagPending (error TagName t))
                              (\<lambda>t. Inr (transition Data t)))
                  else if is_case c (lit ''>'') then
                    andThen (emitTagPending t) (\<lambda>t. Inr (transition Data t))
                  else if is_case c nullStr then on_tagPending (appendTagName [replacementChar]) t
                  else (case c of
                          None \<Rightarrow> Inr (transition Data (eofError TagName t))
                        | Some d \<Rightarrow> on_tagPending (appendTagName (toString d)) t)))"

definition BeforeAttributeName_read :: "Tokeniser \<Rightarrow> error + Tokeniser" where
  "BeforeAttributeName_read t =
     (case r_consume t of (c, t) \<Rightarrow>
        if isWs c then Inr t
        else if is_case c (lit ''/'') then Inr (transition SelfClosingStartTag t)
        else if is_case c (lit ''<'') then
          andThen (r_unconsume t)
            (\<lambda>t. andThen (emitTagPending (error BeforeAttributeName t))
                    (\<lambda>t. Inr (transition Data t)))
        else if is_case c (lit ''>'') then
          andThen (emitTagPending t) (\<lambda>t. Inr (transition Data t))
        else if is_case c nullStr then
          andThen (r_unconsume t)
            (\<lambda>t. andThen (on_tagPending newAttribute (error BeforeAttributeName t))
                    (\<lambda>t. Inr (transition AttributeName t)))
        else (case c of
                None \<Rightarrow> Inr (transition Data (eofError BeforeAttributeName t))
              | Some d \<Rightarrow>
                  if is_case c (Str [34]) \<or> is_case c (Str [39]) \<or> is_case c (lit ''='') then
                    andThen (on_tagPending newAttribute (error BeforeAttributeName t))
                      (\<lambda>t. andThen (on_tagPending (appendAttributeName (toString d)) t)
                              (\<lambda>t. Inr (transition AttributeName t)))
                  else
                    andThen (on_tagPending newAttribute t)
                      (\<lambda>t. andThen (r_unconsume t)
                              (\<lambda>t. Inr (transition AttributeName t)))))"

definition AttributeName_read :: "Tokeniser \<Rightarrow> error + Tokeniser" where
  "AttributeName_read t =
     andThen attributeNameCharsSorted
       (\<lambda>chars. andThen (r_string (\<lambda>r. consumeToAnySorted r chars) t)
       (\<lambda>(name, t). andThen (on_tagPending (appendAttributeName name) t)
          (\<lambda>t. case r_consume t of (c, t) \<Rightarrow>
                  if isWs c then Inr (transition AfterAttributeName t)
                  else if is_case c (lit ''/'') then Inr (transition SelfClosingStartTag t)
                  else if is_case c (lit ''='') then Inr (transition BeforeAttributeValue t)
                  else if is_case c (lit ''>'') then
                    andThen (emitTagPending t) (\<lambda>t. Inr (transition Data t))
                  else (case c of
                          None \<Rightarrow> Inr (transition Data (eofError AttributeName t))
                        | Some d \<Rightarrow>
                            if is_case c (Str [34]) \<or> is_case c (Str [39]) \<or> is_case c (lit ''<'')
                            then on_tagPending (appendAttributeName (toString d)) (error AttributeName t)
                            else on_tagPending (appendAttributeName (toString d)) t))))"

definition AfterAttributeName_read :: "Tokeniser \<Rightarrow> error + Tokeniser" where
  "AfterAttributeName_read t =
     (case r_consume t of (c, t) \<Rightarrow>
        if isWs c then Inr t
        else if is_case c (lit ''/'') then Inr (transition SelfClosingStartTag t)
        else if is_case c (lit ''='') then Inr (transition BeforeAttributeValue t)
        else if is_case c (lit ''>'') then
          andThen (emitTagPending t) (\<lambda>t. Inr (transition Data t))
        else if is_case c nullStr then
          andThen (on_tagPending (appendAttributeName [replacementChar]) (error AfterAttributeName t))
            (\<lambda>t. Inr (transition AttributeName t))
        else (case c of
                None \<Rightarrow> Inr (transition Data (eofError AfterAttributeName t))
              | Some d \<Rightarrow>
                  if is_case c (Str [34]) \<or> is_case c (Str [39]) \<or> is_case c (lit ''<'') then
                    andThen (on_tagPending newAttribute (error AfterAttributeName t))
                      (\<lambda>t. andThen (on_tagPending (appendAttributeName (toString d)) t)
                              (\<lambda>t. Inr (transition AttributeName t)))
                  else
                    andThen (on_tagPending newAttribute t)
                      (\<lambda>t. andThen (r_unconsume t)
                              (\<lambda>t. Inr (transition AttributeName t)))))"

definition BeforeAttributeValue_read :: "Tokeniser \<Rightarrow> error + Tokeniser" where
  "BeforeAttributeValue_read t =
     (case r_consume t of (c, t) \<Rightarrow>
        if isWs c then Inr t
        else if is_case c (Str [34]) then Inr (transition AttributeValue_doubleQuoted t)
        else if is_case c (lit ''&'') then
          andThen (r_unconsume t) (\<lambda>t. Inr (transition AttributeValue_unquoted t))
        else if is_case c (Str [39]) then Inr (transition AttributeValue_singleQuoted t)
        else if is_case c nullStr then
          andThen (on_tagPending (appendAttributeValue [replacementChar]) (error BeforeAttributeValue t))
            (\<lambda>t. Inr (transition AttributeValue_unquoted t))
        else (case c of
                None \<Rightarrow>
                  andThen (emitTagPending (eofError BeforeAttributeValue t))
                    (\<lambda>t. Inr (transition Data t))
              | Some d \<Rightarrow>
                  if is_case c (lit ''>'') then
                    andThen (emitTagPending (error BeforeAttributeValue t))
                      (\<lambda>t. Inr (transition Data t))
                  else if is_case c (lit ''<'') \<or> is_case c (lit ''='') \<or> is_case c (Str [96]) then
                    andThen (on_tagPending (appendAttributeValue_Char d) (error BeforeAttributeValue t))
                      (\<lambda>t. Inr (transition AttributeValue_unquoted t))
                  else
                    andThen (r_unconsume t) (\<lambda>t. Inr (transition AttributeValue_unquoted t))))"

text \<open>
  The two quoted attribute value states differ in the quote only: \<open>single\<close> is the argument
  of \<open>consumeAttributeQuoted\<close>, \<open>quote\<close> the closing quote.
\<close>

definition AttributeValue_quoted_read ::
  "TokeniserState \<Rightarrow> bool \<Rightarrow> jchar \<Rightarrow> Tokeniser \<Rightarrow> error + Tokeniser" where
  "AttributeValue_quoted_read this single quote t =
     andThen (r_string (\<lambda>r. consumeAttributeQuoted r single) t)
       (\<lambda>(v, t). andThen (if length v > 0 then on_tagPending (appendAttributeValue v) t
                          else on_tagPending setEmptyAttributeValue t)
          (\<lambda>t. case r_consume t of (c, t) \<Rightarrow>
                  if is_case c (Str [quote]) then Inr (transition AfterAttributeValue_quoted t)
                  else if is_case c (lit ''&'') then
                    andThen (consumeCharacterReference (Some quote) True t)
                      (\<lambda>(ref, t). case ref of
                                     Some cs \<Rightarrow> on_tagPending (appendAttributeValue_chars cs) t
                                   | None \<Rightarrow> on_tagPending (appendAttributeValue (utf16 ''&'')) t)
                  else if is_case c nullStr then
                    on_tagPending (appendAttributeValue [replacementChar]) (error this t)
                  else (case c of
                          None \<Rightarrow> Inr (transition Data (eofError this t))
                        | Some d \<Rightarrow> on_tagPending (appendAttributeValue_Char d) t)))"

definition AttributeValue_doubleQuoted_read :: "Tokeniser \<Rightarrow> error + Tokeniser" where
  "AttributeValue_doubleQuoted_read t =
     AttributeValue_quoted_read AttributeValue_doubleQuoted False 34 t"

definition AttributeValue_singleQuoted_read :: "Tokeniser \<Rightarrow> error + Tokeniser" where
  "AttributeValue_singleQuoted_read t =
     AttributeValue_quoted_read AttributeValue_singleQuoted True 39 t"

definition AttributeValue_unquoted_read :: "Tokeniser \<Rightarrow> error + Tokeniser" where
  "AttributeValue_unquoted_read t =
     andThen attributeValueUnquoted
       (\<lambda>chars. andThen (r_string (\<lambda>r. consumeToAnySorted r chars) t)
       (\<lambda>(v, t). andThen (if length v > 0 then on_tagPending (appendAttributeValue v) t else Inr t)
          (\<lambda>t. case r_consume t of (c, t) \<Rightarrow>
                  if isWs c then Inr (transition BeforeAttributeName t)
                  else if is_case c (lit ''&'') then
                    andThen (consumeCharacterReference (Some (of_char CHR ''>'')) True t)
                      (\<lambda>(ref, t). case ref of
                                     Some cs \<Rightarrow> on_tagPending (appendAttributeValue_chars cs) t
                                   | None \<Rightarrow> on_tagPending (appendAttributeValue (utf16 ''&'')) t)
                  else if is_case c (lit ''>'') then
                    andThen (emitTagPending t) (\<lambda>t. Inr (transition Data t))
                  else if is_case c nullStr then
                    on_tagPending (appendAttributeValue [replacementChar]) (error AttributeValue_unquoted t)
                  else (case c of
                          None \<Rightarrow> Inr (transition Data (eofError AttributeValue_unquoted t))
                        | Some d \<Rightarrow>
                            if is_case c (Str [34]) \<or> is_case c (Str [39]) \<or> is_case c (lit ''<'')
                               \<or> is_case c (lit ''='') \<or> is_case c (Str [96])
                            then on_tagPending (appendAttributeValue_Char d) (error AttributeValue_unquoted t)
                            else on_tagPending (appendAttributeValue_Char d) t))))"

definition AfterAttributeValue_quoted_read :: "Tokeniser \<Rightarrow> error + Tokeniser" where
  "AfterAttributeValue_quoted_read t =
     (case r_consume t of (c, t) \<Rightarrow>
        if isWs c then Inr (transition BeforeAttributeName t)
        else if is_case c (lit ''/'') then Inr (transition SelfClosingStartTag t)
        else if is_case c (lit ''>'') then
          andThen (emitTagPending t) (\<lambda>t. Inr (transition Data t))
        else if is_case c eof then Inr (transition Data (eofError AfterAttributeValue_quoted t))
        else andThen (r_unconsume t)
               (\<lambda>t. Inr (transition BeforeAttributeName (error AfterAttributeValue_quoted t))))"

definition SelfClosingStartTag_read :: "Tokeniser \<Rightarrow> error + Tokeniser" where
  "SelfClosingStartTag_read t =
     (case r_consume t of (c, t) \<Rightarrow>
        if is_case c (lit ''>'') then
          andThen (on_tagPending set_selfClosing t)
            (\<lambda>t. andThen (emitTagPending t) (\<lambda>t. Inr (transition Data t)))
        else if is_case c eof then Inr (transition Data (eofError SelfClosingStartTag t))
        else andThen (r_unconsume t)
               (\<lambda>t. Inr (transition BeforeAttributeName (error SelfClosingStartTag t))))"

text \<open>
  \<open>BogusComment\<close> tests \<open>next == '>' || next == TokeniserState.eof\<close> with \<open>==\<close>, which
  converts a \<open>Char\<close> to its string.
\<close>

definition BogusComment_read :: "Tokeniser \<Rightarrow> error + Tokeniser" where
  "BogusComment_read t =
     andThen (r_unconsume t)
       (\<lambda>t. andThen (r_string (\<lambda>r. consumeTo r (utf16 ''>'')) t)
          (\<lambda>(s, t). case r_consume (on_commentPending (Comment_append s) t) of (next, t) \<Rightarrow>
                       if loose_eq (val_of next) (lit ''>'') \<or> loose_eq (val_of next) eof
                       then andThen (emitCommentPending t) (\<lambda>t. Inr (transition Data t))
                       else Inr t))"

definition MarkupDeclarationOpen_read :: "Tokeniser \<Rightarrow> error + Tokeniser" where
  "MarkupDeclarationOpen_read t =
     andThen (r_matchConsume (utf16 ''--'') t)
       (\<lambda>(b, t). if b then Inr (transition CommentStart (createCommentPending t))
                  else Inl TypeError)"

definition CommentStart_read :: "Tokeniser \<Rightarrow> error + Tokeniser" where
  "CommentStart_read t =
     (case r_consume t of (c, t) \<Rightarrow>
        if is_case c (lit ''-'') then Inr (transition CommentStartDash t)
        else if is_case c nullStr then
          Inr (transition Comment
                 (on_commentPending (Comment_append [replacementChar]) (error CommentStart t)))
        else if is_case c (lit ''>'') then
          andThen (emitCommentPending (error CommentStart t)) (\<lambda>t. Inr (transition Data t))
        else if is_case c eof then
          andThen (emitCommentPending (eofError CommentStart t)) (\<lambda>t. Inr (transition Data t))
        else andThen (r_unconsume t) (\<lambda>t. Inr (transition Comment t)))"

definition CommentStartDash_read :: "Tokeniser \<Rightarrow> error + Tokeniser" where
  "CommentStartDash_read t =
     (case r_consume t of (c, t) \<Rightarrow>
        if is_case c (lit ''-'') then Inr (transition CommentStartDash t)
        else if is_case c nullStr then
          Inr (transition Comment
                 (on_commentPending (Comment_append [replacementChar]) (error CommentStartDash t)))
        else if is_case c (lit ''>'') then
          andThen (emitCommentPending (error CommentStartDash t)) (\<lambda>t. Inr (transition Data t))
        else (case c of
                None \<Rightarrow>
                  andThen (emitCommentPending (eofError CommentStartDash t))
                    (\<lambda>t. Inr (transition Data t))
              | Some d \<Rightarrow> Inr (transition Comment (on_commentPending (Comment_append (toString d)) t))))"

text \<open>
  The array that \<open>Comment\<close> passes to \<open>consumeToAny\<close> holds the two primitive strings
  \<open>'-'\<close> and \<open>TokeniserState.nullChar\<close>.
\<close>

definition Comment_read :: "Tokeniser \<Rightarrow> error + Tokeniser" where
  "Comment_read t =
     (let c = current (reader t)
      in if is_case c (lit ''-'') then Inr (advanceTransition CommentEndDash t)
         else if is_case c nullStr then
           Inr (on_commentPending (Comment_append [replacementChar]) (r_advance (error Comment t)))
         else if is_case c eof then
           andThen (emitCommentPending (eofError Comment t)) (\<lambda>t. Inr (transition Data t))
         else andThen (r_string (\<lambda>r. consumeToAny r [lit ''-'', nullStr]) t)
                (\<lambda>(s, t). Inr (on_commentPending (Comment_append s) t)))"

definition CommentEndDash_read :: "Tokeniser \<Rightarrow> error + Tokeniser" where
  "CommentEndDash_read t =
     (case r_consume t of (c, t) \<Rightarrow>
        if is_case c (lit ''-'') then Inr (transition CommentEnd t)
        else if is_case c nullStr then
          Inr (transition Comment
                 (on_commentPending (Comment_append [replacementChar])
                    (on_commentPending (Comment_append (utf16 ''-'')) (error CommentEndDash t))))
        else (case c of
                None \<Rightarrow>
                  andThen (emitCommentPending (eofError CommentEndDash t))
                    (\<lambda>t. Inr (transition Data t))
              | Some d \<Rightarrow>
                  Inr (transition Comment
                         (on_commentPending (Comment_append (toString d))
                            (on_commentPending (Comment_append (utf16 ''-'')) t)))))"

definition CommentEnd_read :: "Tokeniser \<Rightarrow> error + Tokeniser" where
  "CommentEnd_read t =
     (case r_consume t of (c, t) \<Rightarrow>
        if is_case c (lit ''>'') then
          andThen (emitCommentPending t) (\<lambda>t. Inr (transition Data t))
        else if is_case c nullStr then
          Inr (transition Comment
                 (on_commentPending (Comment_append [replacementChar])
                    (on_commentPending (Comment_append (utf16 ''--'')) (error CommentEnd t))))
        else if is_case c (lit ''!'') then Inr (transition CommentEndBang (error CommentEnd t))
        else if is_case c (lit ''-'') then
          Inr (on_commentPending (Comment_append (utf16 ''-'')) (error CommentEnd t))
        else (case c of
                None \<Rightarrow>
                  andThen (emitCommentPending (eofError CommentEnd t))
                    (\<lambda>t. Inr (transition Data t))
              | Some d \<Rightarrow>
                  Inr (transition Comment
                         (on_commentPending (Comment_append (toString d))
                            (on_commentPending (Comment_append (utf16 ''--'')) (error CommentEnd t))))))"

definition CommentEndBang_read :: "Tokeniser \<Rightarrow> error + Tokeniser" where
  "CommentEndBang_read t =
     (case r_consume t of (c, t) \<Rightarrow>
        if is_case c (lit ''-'') then
          Inr (transition CommentEndDash (on_commentPending (Comment_append (utf16 ''--!'')) t))
        else if is_case c (lit ''>'') then
          andThen (emitCommentPending t) (\<lambda>t. Inr (transition Data t))
        else if is_case c nullStr then
          Inr (transition Comment
                 (on_commentPending (Comment_append [replacementChar])
                    (on_commentPending (Comment_append (utf16 ''--!'')) (error CommentEndBang t))))
        else (case c of
                None \<Rightarrow>
                  andThen (emitCommentPending (eofError CommentEndBang t))
                    (\<lambda>t. Inr (transition Data t))
              | Some d \<Rightarrow>
                  Inr (transition Comment
                         (on_commentPending (Comment_append (toString d))
                            (on_commentPending (Comment_append (utf16 ''--!'')) t)))))"

text \<open>\<open>this.state.read(this, this.reader)\<close>.\<close>

fun state_read :: "TokeniserState \<Rightarrow> Tokeniser \<Rightarrow> error + Tokeniser" where
  "state_read Data t = Data_read t"
| "state_read CharacterReferenceInData t = CharacterReferenceInData_read t"
| "state_read TagOpen t = TagOpen_read t"
| "state_read EndTagOpen t = EndTagOpen_read t"
| "state_read TagName t = TagName_read t"
| "state_read BeforeAttributeName t = BeforeAttributeName_read t"
| "state_read AttributeName t = AttributeName_read t"
| "state_read AfterAttributeName t = AfterAttributeName_read t"
| "state_read BeforeAttributeValue t = BeforeAttributeValue_read t"
| "state_read AttributeValue_doubleQuoted t = AttributeValue_doubleQuoted_read t"
| "state_read AttributeValue_singleQuoted t = AttributeValue_singleQuoted_read t"
| "state_read AttributeValue_unquoted t = AttributeValue_unquoted_read t"
| "state_read AfterAttributeValue_quoted t = AfterAttributeValue_quoted_read t"
| "state_read SelfClosingStartTag t = SelfClosingStartTag_read t"
| "state_read BogusComment t = BogusComment_read t"
| "state_read MarkupDeclarationOpen t = MarkupDeclarationOpen_read t"
| "state_read CommentStart t = CommentStart_read t"
| "state_read CommentStartDash t = CommentStartDash_read t"
| "state_read Comment t = Comment_read t"
| "state_read CommentEndDash t = CommentEndDash_read t"
| "state_read CommentEnd t = CommentEnd_read t"
| "state_read CommentEndBang t = CommentEndBang_read t"

text \<open>
  \<open>Tokeniser.read()\<close>. The loop \<open>while (!this.isEmitPending) this.state.read(this,
  this.reader)\<close> may run forever: \<open>read_loop\<close> is \<open>None\<close> then. An exception leaves the loop
  with the error.
\<close>

partial_function (option) read_loop :: "Tokeniser \<Rightarrow> (error + Tokeniser) option" where
  "read_loop t =
     (if isEmitPending t then Some (Inr t)
      else (case state_read (state t) t of
              Inl e \<Rightarrow> Some (Inl e)
            | Inr t' \<Rightarrow> read_loop t'))"

definition token_at :: "token_ref \<Rightarrow> Tokeniser \<Rightarrow> Token" where
  "token_at ref t =
     (case ref of
        TagRef StartPending \<Rightarrow> StartTag (startPending t)
      | TagRef EndPending \<Rightarrow> EndTag (endPending t)
      | CommentPending \<Rightarrow> CommentToken (commentPending t)
      | NewEOF \<Rightarrow> EOF)"

text \<open>
  The part of \<open>read()\<close> after the loop. The token returned is \<open>None\<close> when \<open>emitPending\<close>
  is still \<open>undefined\<close>.
\<close>

definition read_return :: "Tokeniser \<Rightarrow> Token option \<times> Tokeniser" where
  "read_return t =
     (if length (charsBuilder t) \<noteq> 0 then
        (let str = charsBuilder t
         in (Some (Character str), t\<lparr>charsBuilder := [], charsString := None, charPending := Some str\<rparr>))
      else (case charsString t of
              Some cs \<Rightarrow> (Some (Character cs), t\<lparr>charPending := Some cs, charsString := None\<rparr>)
            | None \<Rightarrow>
                (let t = t\<lparr>isEmitPending := False\<rparr>
                 in (map_option (\<lambda>ref. token_at ref t) (emitPending t), t))))"

definition read :: "Tokeniser \<Rightarrow> (error + (Token option \<times> Tokeniser)) option" where
  "read t =
     (case read_loop t of
        None \<Rightarrow> None
      | Some (Inl e) \<Rightarrow> Some (Inl e)
      | Some (Inr t) \<Rightarrow> Some (Inr (read_return t)))"


section \<open>Runs\<close>

text \<open>
  The operations of \<open>CharacterReader\<close> that move the cursor or the mark, and a run of them on
  a reader. A caller may catch an exception and go on, so a run applies every operation to
  the reader as the one before left it.
\<close>

datatype reader_op =
    Consume
  | Unconsume
  | Advance
  | Mark
  | Unmark
  | RewindToMark
  | ConsumeTo jstring
  | ConsumeToAny "jsval list"
  | ConsumeToAnySorted "jsval list"
  | ConsumeData
  | ConsumeAttributeQuoted bool
  | ConsumeRawData
  | ConsumeTagName
  | ConsumeToEnd
  | ConsumeLetterSequence
  | ConsumeDigitSequence
  | ConsumeLetterThenDigitSequence
  | ConsumeHexSequence
  | MatchConsume jstring

fun apply_op :: "reader_op \<Rightarrow> CharacterReader \<Rightarrow> CharacterReader" where
  "apply_op Consume r = snd (consume r)"
| "apply_op Unconsume r = snd (unconsume r)"
| "apply_op Advance r = advance r"
| "apply_op Mark r = mark r"
| "apply_op Unmark r = unmark r"
| "apply_op RewindToMark r = snd (rewindToMark r)"
| "apply_op (ConsumeTo seq) r = snd (consumeTo r seq)"
| "apply_op (ConsumeToAny chars) r = snd (consumeToAny r chars)"
| "apply_op (ConsumeToAnySorted chars) r = snd (consumeToAnySorted r chars)"
| "apply_op ConsumeData r = snd (consumeData r)"
| "apply_op (ConsumeAttributeQuoted single) r = snd (consumeAttributeQuoted r single)"
| "apply_op ConsumeRawData r = snd (consumeRawData r)"
| "apply_op ConsumeTagName r = snd (consumeTagName r)"
| "apply_op ConsumeToEnd r = snd (consumeToEnd r)"
| "apply_op ConsumeLetterSequence r = snd (consumeLetterSequence r)"
| "apply_op ConsumeDigitSequence r = snd (consumeDigitSequence r)"
| "apply_op ConsumeLetterThenDigitSequence r = snd (consumeLetterThenDigitSequence r)"
| "apply_op ConsumeHexSequence r = snd (consumeHexSequence r)"
| "apply_op (MatchConsume seq) r = snd (matchConsume r seq)"

definition run :: "reader_op list \<Rightarrow> CharacterReader \<Rightarrow> CharacterReader" where
  "run ops r = foldl (\<lambda>r op. apply_op op r) r ops"

text \<open>The calls that add one to the cursor wherever it is.\<close>

fun steps :: "reader_op \<Rightarrow> nat" where
  "steps Consume = 1"
| "steps Advance = 1"
| "steps op = 0"


definition attributeCount :: "Tag \<Rightarrow> nat" where
  "attributeCount tg = (case attributes tg of None \<Rightarrow> 0 | Some as \<Rightarrow> length as)"



text \<open>
  What holds of the cursor after \<open>n\<close> single steps past the end: it is not negative, at most
  \<open>n\<close> beyond the length, and no mark is set.
\<close>

definition cursor_inv :: "nat \<Rightarrow> CharacterReader \<Rightarrow> bool" where
  "cursor_inv n r = (0 \<le> bufPos r \<and> bufPos r \<le> bufLength r + int n \<and> bufMark r = -1)"


text \<open>
  One pass of the loop of \<open>read()\<close>, when there is one and it does not throw, and the test
  that a tokeniser comes to a state that a pass of the loop leaves as it is, after \<open>n\<close>
  passes.
\<close>

definition step_of :: "Tokeniser \<Rightarrow> Tokeniser option" where
  "step_of t =
     (if isEmitPending t then None
      else (case state_read (state t) t of Inl e \<Rightarrow> None | Inr t' \<Rightarrow> Some t'))"

fun stuck_after :: "nat \<Rightarrow> Tokeniser \<Rightarrow> bool" where
  "stuck_after 0 t = (step_of t = Some t)"
| "stuck_after (Suc n) t = (case step_of t of None \<Rightarrow> False | Some t' \<Rightarrow> stuck_after n t')"

text \<open>
  Both pending tags are within the attribute limit; a function on tags keeps a tag within
  it; a result, when it is not an error, satisfies a predicate.
\<close>

definition tag_inv :: "Tokeniser \<Rightarrow> bool" where
  "tag_inv t =
     (attributeCount (startPending t) \<le> MaxAttributes \<and> attributeCount (endPending t) \<le> MaxAttributes)"

definition keeps_count :: "(Tag \<Rightarrow> Tag) \<Rightarrow> bool" where
  "keeps_count f =
     (\<forall>tg. attributeCount tg \<le> MaxAttributes \<longrightarrow> attributeCount (f tg) \<le> MaxAttributes)"

definition post :: "error + 'a \<Rightarrow> ('a \<Rightarrow> bool) \<Rightarrow> bool" where
  "post x Q = (case x of Inl e \<Rightarrow> True | Inr v \<Rightarrow> Q v)"


section \<open>Evaluation\<close>

text \<open>The equations that evaluate the reader on a concrete input.\<close>

lemma range_chars_numeral:
  "range_chars buf i (numeral k) =
     (case at buf i of
        None \<Rightarrow> None
      | Some c \<Rightarrow> (case range_chars buf (i + 1) (pred_numeral k) of
                     None \<Rightarrow> None
                   | Some cs \<Rightarrow> Some (c # cs)))"
  by (simp add: numeral_eq_Suc)

lemmas reader_defs =
  Let_def new_CharacterReader_def utf16_def bufLength_def isEmpty_def getAtPos_def current_def at_def
  consume_def unconsume_def advance_def pos_def reader_string_def new_ref_def
  Char_valueOf_def Char_NULL_def toString_def equals_def Char_in_def array_includes_def val_of_def
  slice_def slice_from_def rel_index_def comma_def
  cached_def cacheString_def maxStringCacheLen_def stringCacheSize_def hash_of_def fl_def
  rangeEquals_def range_chars_numeral
  returnConsume_def consumeToAny_def consumeToAnySorted_def consumeData_def consumeTagName_def
  consumeAttributeQuoted_def consumeToEnd_def consumeTo_def nextIndexOf_def indexOf_def

text \<open>The equations that evaluate the states and \<open>read()\<close>.\<close>

lemmas tokeniser_defs =
  new_Tokeniser_def
  Data_read_def TagOpen_read_def TagName_read_def BeforeAttributeName_read_def AttributeName_read_def
  AfterAttributeName_read_def BeforeAttributeValue_read_def AttributeValue_quoted_read_def
  AttributeValue_doubleQuoted_read_def AttributeValue_singleQuoted_read_def AttributeValue_unquoted_read_def
  AfterAttributeValue_quoted_read_def SelfClosingStartTag_read_def BogusComment_read_def
  MarkupDeclarationOpen_read_def CommentStart_read_def CommentStartDash_read_def Comment_read_def
  CommentEndDash_read_def CommentEnd_read_def CommentEndBang_read_def EndTagOpen_read_def
  CharacterReferenceInData_read_def readCharRef_def consumeCharacterReference_def
  andThen_def r_string_def r_consume_def r_unconsume_def r_advance_def r_matchConsume_def
  matchesLetter_def matches_def matchesIgnoreCase_def matchConsume_def isLetter_def
  emitToken_def emitString_def emitChars_def transition_def advanceTransition_def createTagPending_def emitTagPending_def
  createCommentPending_def emitCommentPending_def createBogusCommentPending_def
  on_tagPending_def on_commentPending_def tag_upd_def tag_of_def
  error_def error_message_def eofError_def error_at_def canAddError_def push_def
  Tag_reset_def new_Tag_def newAttribute_def finaliseTag_def get_tagName_def appendTagName_def appendAttributeName_def
  appendAttributeValue_def appendAttributeValue_Char_def ensureAttributeValue_def setEmptyAttributeValue_def set_selfClosing_def hasAttributes_def
  add_def new_Attribute_def template_def trim_def isTrimSpace_def MaxAttributes_def
  Comment_reset_def new_Comment_def Comment_append_def ensureData_def
  nullChar_def replacementChar_def isWs_def is_case_def nullStr_def eof_def
  Char_arrayOf_def attributeNameCharsSorted_def attributeValueUnquoted_def
  read_def read_return_def token_at_def


section \<open>The cursor of the reader\<close>

lemma length_valueOf_each [simp]: "length (valueOf_each a s) = length s"
  by (induction s arbitrary: a) auto

lemma findIndex_range: "findIndex P xs = -1 \<or> (0 \<le> findIndex P xs \<and> findIndex P xs < int (length xs))"
  by (induction xs) (auto simp: Let_def)

lemma search_range:
  "search seq xs k = -1 \<or> (int k \<le> search seq xs k \<and> search seq xs k \<le> int k + int (length xs))"
  by (induction seq xs k rule: search.induct) auto

lemma indexOf_range: "indexOf s seq p = -1 \<or> (0 \<le> indexOf s seq p \<and> indexOf s seq p \<le> int (length s))"
proof -
  define k where "k = nat (max 0 (min p (int (length s))))"
  have "k \<le> length s" by (simp add: k_def)
  with search_range [of seq "drop k s" k] show ?thesis
    by (auto simp: indexOf_def Let_def k_def [symmetric])
qed

lemma cached_fields [simp]:
  "bufPos (snd (cached r a b)) = bufPos r"
  "bufMark (snd (cached r a b)) = bufMark r"
  "charBuf (snd (cached r a b)) = charBuf r"
  by (auto simp: cached_def split: sum.splits prod.splits)

lemma cached_cases:
  obtains e where "cached r a b = (Inl e, r)"
  | s c where "cached r a b = (Inr s, r\<lparr>stringCache := c\<rparr>)"
proof (cases "cacheString (charBuf r) (stringCache r) a b")
  case (Inl e)
  then show ?thesis using that(1) by (simp add: cached_def)
next
  case (Inr p)
  then show ?thesis using that(2) [of "fst p" "snd p"] by (cases p) (simp add: cached_def)
qed

lemma search_Nil: "search [] xs k = int k"
  by (cases xs) auto

lemma nextIndexOf_Nil: "0 \<le> bufPos r \<Longrightarrow> bufPos r \<le> bufLength r \<Longrightarrow> nextIndexOf r [] = 0"
  by (simp add: nextIndexOf_def indexOf_def search_Nil bufLength_def Let_def reader_string_def)

lemma returnConsume_inv:
  assumes "cursor_inv n r" and "index = -1 \<or> (0 \<le> index \<and> bufPos r + index \<le> bufLength r)"
  shows "cursor_inv n (snd (returnConsume r index)) \<and> charBuf (snd (returnConsume r index)) = charBuf r"
  using assms by (auto simp: returnConsume_def cursor_inv_def Let_def bufLength_def)

lemma findIndex_slice_from:
  assumes "0 \<le> bufPos r"
  shows "findIndex P (slice_from (charBuf r) (bufPos r)) = -1
     \<or> (0 \<le> findIndex P (slice_from (charBuf r) (bufPos r))
        \<and> bufPos r + findIndex P (slice_from (charBuf r) (bufPos r)) \<le> bufLength r)"
  using assms findIndex_range [of P "slice_from (charBuf r) (bufPos r)"]
  by (auto simp: slice_from_def rel_index_def bufLength_def min_def split: if_splits)

lemma consumeToEnd_inv:
  assumes "cursor_inv n r"
  shows "cursor_inv n (snd (consumeToEnd r)) \<and> charBuf (snd (consumeToEnd r)) = charBuf r"
  using assms by (cases rule: cached_cases [of r "bufPos r" "bufLength r - bufPos r"])
    (auto simp: consumeToEnd_def cursor_inv_def bufLength_def)

lemma consumeTo_inv:
  assumes "cursor_inv n r"
  shows "cursor_inv n (snd (consumeTo r seq)) \<and> charBuf (snd (consumeTo r seq)) = charBuf r"
proof -
  let ?off = "nextIndexOf r seq"
  show ?thesis
  proof (cases "?off \<noteq> -1")
    case True
    have r: "0 \<le> bufPos r + ?off \<and> bufPos r + ?off \<le> bufLength r"
      using True indexOf_range [of "reader_string r" seq "bufPos r"]
      by (auto simp: nextIndexOf_def Let_def bufLength_def reader_string_def split: if_splits)
    show ?thesis using True r assms
      by (cases rule: cached_cases [of r "bufPos r" ?off])
         (auto simp: consumeTo_def Let_def cursor_inv_def bufLength_def)
  next
    case False
    show ?thesis
    proof (cases "length seq = 1 \<or> bufLength r - bufPos r < int (length seq)")
      case True
      with False consumeToEnd_inv [OF assms] show ?thesis by (simp add: consumeTo_def)
    next
      case F2: False
      let ?e = "bufLength r - int (length seq) + 1"
      have "seq \<noteq> []" using False F2 assms nextIndexOf_Nil [of r]
        by (auto simp: cursor_inv_def)
      then have "1 \<le> length seq" by (cases seq) auto
      then show ?thesis using False F2 assms
        by (cases rule: cached_cases [of r "bufPos r" "?e - bufPos r"])
           (auto simp: consumeTo_def Let_def cursor_inv_def bufLength_def)
    qed
  qed
qed

lemma matchConsume_inv:
  assumes "cursor_inv n r"
  shows "cursor_inv n (snd (matchConsume r seq)) \<and> charBuf (snd (matchConsume r seq)) = charBuf r"
  using assms
  by (auto simp: matchConsume_def matchesIgnoreCase_def Let_def cursor_inv_def bufLength_def split: sum.splits bool.splits if_splits)

lemma consumeLetterThenDigitSequence_inv:
  assumes "cursor_inv n r"
  shows "cursor_inv n (snd (consumeLetterThenDigitSequence r)) \<and> charBuf (snd (consumeLetterThenDigitSequence r)) = charBuf r"
proof -
  define i where "i = findIndex (\<lambda>ch. \<not> isLetter ch) (slice_from (charBuf r) (bufPos r))"
  define r1 where "r1 = r\<lparr>bufPos := bufPos r + max i 0\<rparr>"
  have i: "i = -1 \<or> (0 \<le> i \<and> bufPos r + i \<le> bufLength r)"
    unfolding i_def using assms by (intro findIndex_slice_from) (simp add: cursor_inv_def)
  have r1: "cursor_inv n r1" "charBuf r1 = charBuf r" using i assms by (auto simp: r1_def cursor_inv_def bufLength_def)
  define j where "j = findIndex (\<lambda>ch. \<not> isDigit ch) (slice_from (charBuf r1) (bufPos r1))"
  have j: "j = -1 \<or> (0 \<le> j \<and> bufPos r1 + j \<le> bufLength r1)"
    unfolding j_def using r1 by (intro findIndex_slice_from) (simp add: cursor_inv_def)
  define r2 where "r2 = (if \<not> isEmpty r1 then r1\<lparr>bufPos := bufPos r1 + max j 0\<rparr> else r1)"
  have r2: "cursor_inv n r2" "charBuf r2 = charBuf r" using j r1 by (auto simp: r2_def cursor_inv_def bufLength_def)
  have "consumeLetterThenDigitSequence r = cached r2 (bufPos r) (bufPos r2 - bufPos r)"
    by (simp add: consumeLetterThenDigitSequence_def Let_def r2_def j_def r1_def i_def)
  with r2 show ?thesis by (simp add: cursor_inv_def bufLength_def)
qed

lemma apply_op_inv:
  assumes "cursor_inv n r"
  shows "cursor_inv (n + steps op) (apply_op op r) \<and> charBuf (apply_op op r) = charBuf r"
proof -
  have fi: "\<And>P. cursor_inv n (snd (returnConsume r (findIndex P (slice_from (charBuf r) (bufPos r)))))
       \<and> charBuf (snd (returnConsume r (findIndex P (slice_from (charBuf r) (bufPos r))))) = charBuf r"
    using assms by (intro returnConsume_inv findIndex_slice_from) (auto simp: cursor_inv_def)
  show ?thesis
  proof (cases op)
    case Consume then show ?thesis using assms by (auto simp: consume_def cursor_inv_def bufLength_def Let_def)
  next
    case Unconsume then show ?thesis using assms by (auto simp: unconsume_def cursor_inv_def bufLength_def)
  next
    case Advance then show ?thesis using assms by (auto simp: advance_def cursor_inv_def bufLength_def)
  next
    case Mark then show ?thesis using assms by (auto simp: mark_def cursor_inv_def bufLength_def)
  next
    case Unmark then show ?thesis using assms by (auto simp: unmark_def cursor_inv_def bufLength_def)
  next
    case RewindToMark then show ?thesis using assms by (auto simp: rewindToMark_def cursor_inv_def bufLength_def)
  next
    case (ConsumeTo seq) then show ?thesis using consumeTo_inv [OF assms] by simp
  next
    case (ConsumeToAny cs) then show ?thesis using fi by (simp add: consumeToAny_def)
  next
    case (ConsumeToAnySorted cs) then show ?thesis using fi by (simp add: consumeToAny_def consumeToAnySorted_def)
  next
    case ConsumeData then show ?thesis using fi by (simp add: consumeToAny_def consumeData_def)
  next
    case (ConsumeAttributeQuoted b) then show ?thesis using fi by (simp add: consumeAttributeQuoted_def)
  next
    case ConsumeRawData then show ?thesis using fi by (simp add: consumeRawData_def)
  next
    case ConsumeTagName then show ?thesis using fi by (simp add: consumeTagName_def)
  next
    case ConsumeToEnd then show ?thesis using consumeToEnd_inv [OF assms] by simp
  next
    case ConsumeLetterSequence then show ?thesis using fi by (simp add: consumeLetterSequence_def)
  next
    case ConsumeDigitSequence then show ?thesis using fi by (simp add: consumeDigitSequence_def)
  next
    case ConsumeLetterThenDigitSequence then show ?thesis using consumeLetterThenDigitSequence_inv [OF assms] by simp
  next
    case ConsumeHexSequence then show ?thesis using fi by (simp add: consumeHexSequence_def)
  next
    case (MatchConsume seq) then show ?thesis using matchConsume_inv [OF assms] by simp
  qed
qed

lemma run_inv:
  "cursor_inv n r \<Longrightarrow> cursor_inv (n + sum_list (map steps ops)) (run ops r) \<and> charBuf (run ops r) = charBuf r"
proof (induction ops arbitrary: n r)
  case Nil
  then show ?case by (simp add: run_def)
next
  case (Cons op ops)
  from apply_op_inv [OF Cons.prems, of op]
  have a: "cursor_inv (n + steps op) (apply_op op r)" and c: "charBuf (apply_op op r) = charBuf r" by auto
  from Cons.IH [OF a] c show ?case by (simp add: run_def add.assoc)
qed






section \<open>The reader: delimiters, the cache, the mark\<close>

lemma mark_run_no_mark:
  "bufMark (run ops (mark (new_CharacterReader input))) = -1"
proof -
  have "cursor_inv 0 (mark (new_CharacterReader input))"
    by (simp add: cursor_inv_def new_CharacterReader_def bufLength_def mark_def)
  from run_inv [OF this, of ops] show ?thesis by (simp add: cursor_inv_def)
qed

lemma findIndex_none: "(\<forall>x \<in> set xs. \<not> P x) \<Longrightarrow> findIndex P xs = -1"
  by (induction xs) auto

lemma set_slice_from: "set (slice_from xs i) \<subseteq> set xs"
  by (simp add: slice_from_def set_drop_subset)

text \<open>
  The objects of a new reader have the references from 1 on, and \<open>new_ref\<close> is above the
  reference of every object of the buffer.
\<close>

lemma ident_valueOf_each: "ch \<in> set (valueOf_each a s) \<Longrightarrow> a \<le> ident ch"
proof (induction s arbitrary: a)
  case Nil
  then show ?case by simp
next
  case (Cons c cs)
  from Cons.prems Cons.IH [of "a + 1"] show ?case by (auto simp: Char_valueOf_def)
qed

lemma ident_le_foldr_max: "ch \<in> set cs \<Longrightarrow> ident ch \<le> foldr max (map ident cs) 0"
  by (induction cs) auto

lemma ident_less_new_ref: "ch \<in> set (charBuf r) \<Longrightarrow> ident ch < new_ref r"
  using ident_le_foldr_max [of ch "charBuf r"] by (simp add: new_ref_def)

lemma consumeToAny_not_found:
  assumes "\<forall>ch \<in> set (slice_from (charBuf r) (bufPos r)). \<not> array_includes chars (Obj ch)"
  shows "consumeToAny r chars = (Inr [], r)"
proof -
  have "findIndex (\<lambda>ch. array_includes chars (Obj ch)) (slice_from (charBuf r) (bufPos r)) = -1"
    by (rule findIndex_none) (rule assms)
  then show ?thesis by (simp add: consumeToAny_def returnConsume_def)
qed

text \<open>
  On a reader whose buffer does not hold \<open>Char.NULL\<close> itself, as on every new reader,
  \<open>consumeData()\<close> finds none of its three delimiters, whatever the input: it returns the
  empty string and leaves the reader as it was.
\<close>

lemma consumeData_not_found:
  assumes "\<forall>ch \<in> set (charBuf r). ident ch \<noteq> 0"
  shows "consumeData r = (Inr [], r)"
proof -
  have "\<forall>ch \<in> set (slice_from (charBuf r) (bufPos r)).
      \<not> array_includes [Obj (Char_valueOf (new_ref r) (utf16 ''&'')),
                         Obj (Char_valueOf (new_ref r + 1) (utf16 ''<'')), Obj Char_NULL] (Obj ch)"
  proof
    fix ch
    assume "ch \<in> set (slice_from (charBuf r) (bufPos r))"
    then have m: "ch \<in> set (charBuf r)"
      using set_slice_from [of "charBuf r" "bufPos r"] by (rule_tac subsetD)
    from ident_less_new_ref [OF m] have 1: "ident ch < new_ref r" .
    from assms m have 2: "ident ch \<noteq> 0" by (rule bspec)
    from 1 2 have "new_ref r \<noteq> ident ch \<and> new_ref r + 1 \<noteq> ident ch \<and> 0 \<noteq> ident ch"
      by arith
    then show "\<not> array_includes [Obj (Char_valueOf (new_ref r) (utf16 ''&'')),
                         Obj (Char_valueOf (new_ref r + 1) (utf16 ''<'')), Obj Char_NULL] (Obj ch)"
      by (simp add: array_includes_def Char_valueOf_def Char_NULL_def)
  qed
  from consumeToAny_not_found [OF this] show ?thesis
    by (simp add: consumeData_def Let_def)
qed

lemma new_reader_no_NULL: "\<forall>ch \<in> set (charBuf (new_CharacterReader input)). ident ch \<noteq> 0"
proof
  fix ch
  assume "ch \<in> set (charBuf (new_CharacterReader input))"
  then have "ch \<in> set (valueOf_each 1 input)" by (simp add: new_CharacterReader_def)
  from ident_valueOf_each [OF this] show "ident ch \<noteq> 0" by simp
qed

text \<open>
  C4: when none of the objects at or after the cursor is itself an element of \<open>chars\<close>,
  \<open>consumeToAny\<close> returns the empty string and leaves the reader as it was, the cursor
  included. That is so whenever the delimiters are \<open>Char\<close>s that the caller has made:
  over \<open>ab<\<close> with a new \<open>Char.valueOf('<')\<close> the result is the empty string and the
  cursor stays at 0, before the \<open>a\<close>.
\<close>

theorem C4_consumeToAny:
  "((\<forall>ch \<in> set (slice_from (charBuf r) (bufPos r)). \<not> array_includes chars (Obj ch)) \<longrightarrow>
      consumeToAny r chars = (Inr [], r))
   \<and> consumeToAny (new_CharacterReader (utf16 ''ab<''))
         [Obj (Char_valueOf (new_ref (new_CharacterReader (utf16 ''ab<''))) (utf16 ''<''))]
       = (Inr [], new_CharacterReader (utf16 ''ab<''))
   \<and> bufPos (new_CharacterReader (utf16 ''ab<'')) = 0"
proof -
  have a: "consumeToAny (new_CharacterReader (utf16 ''ab<''))
         [Obj (Char_valueOf (new_ref (new_CharacterReader (utf16 ''ab<''))) (utf16 ''<''))]
       = (Inr [], new_CharacterReader (utf16 ''ab<''))"
    by (simp add: reader_defs)
  have b: "bufPos (new_CharacterReader (utf16 ''ab<'')) = 0"
    by (simp add: new_CharacterReader_def)
  from a b consumeToAny_not_found [of r chars] show ?thesis by blast
qed

text \<open>
  Over \<open>abc\<close> with a new \<open>Char.valueOf('x')\<close> as the delimiter: the empty string, the
  cursor still at 0 and \<open>isEmpty()\<close> false.
\<close>

theorem C4_consumeToAny_witness:
  "consumeToAny (new_CharacterReader (utf16 ''abc''))
       [Obj (Char_valueOf (new_ref (new_CharacterReader (utf16 ''abc''))) (utf16 ''x''))]
     = (Inr [], new_CharacterReader (utf16 ''abc''))
   \<and> bufPos (new_CharacterReader (utf16 ''abc'')) = 0
   \<and> \<not> isEmpty (new_CharacterReader (utf16 ''abc''))"
proof -
  let ?r = "new_CharacterReader (utf16 ''abc'')"
  have h: "\<forall>ch \<in> set (slice_from (charBuf ?r) (bufPos ?r)).
             \<not> array_includes [Obj (Char_valueOf (new_ref ?r) (utf16 ''x''))] (Obj ch)"
    by (simp add: reader_defs)
  from C4_consumeToAny [of ?r "[Obj (Char_valueOf (new_ref ?r) (utf16 ''x''))]"] h
  have "consumeToAny ?r [Obj (Char_valueOf (new_ref ?r) (utf16 ''x''))] = (Inr [], ?r)" by blast
  then show ?thesis by (simp add: new_CharacterReader_def isEmpty_def bufLength_def utf16_def)
qed

text \<open>
  C6 at two inputs, both with an empty cache and a range inside the buffer of a new reader
  over \<open>abc\<close>: for \<open>start = 1, count = 2\<close> the range is \<open>bc\<close> and \<open>cacheString\<close> returns
  \<open>b\<close>; for \<open>start = 0, count = 2\<close> the range is \<open>ab\<close> and it returns \<open>a,b\<close>.
\<close>

theorem C6_cacheString_at_inputs:
  "map_sum id fst (cacheString (charBuf (new_CharacterReader (utf16 ''abc''))) Map.empty 1 2)
     = Inr (utf16 ''b'')
   \<and> map_sum id fst (cacheString (charBuf (new_CharacterReader (utf16 ''abc''))) Map.empty 0 2)
     = Inr (utf16 ''a,b'')"
  by (simp add: reader_defs)

text \<open>
  C7: \<open>mark()\<close> sets no mark. After \<open>mark()\<close> on a new reader and any run of operations,
  \<open>rewindToMark()\<close> throws \<open>Mark invalid\<close> and the cursor stays where the run left it.
\<close>

theorem C7_rewindToMark_after_mark_throws:
  "rewindToMark (run ops (mark (new_CharacterReader input)))
     = (Inl (Error ''Mark invalid''), run ops (mark (new_CharacterReader input)))"
  by (simp add: rewindToMark_def mark_run_no_mark)



section \<open>The tokeniser on concrete inputs\<close>

text \<open>
  A tokeniser that a pass of the loop of \<open>read()\<close> leaves as it is never leaves the loop.
\<close>

lemma read_loop_step: "step_of t = Some t' \<Longrightarrow> read_loop t = read_loop t'"
  by (subst read_loop.simps) (auto simp: step_of_def split: if_splits sum.splits)

lemma read_loop_fixpoint:
  assumes "step_of t = Some t"
  shows "read_loop t = None"
proof -
  have ne: "x \<noteq> t" if a: "read_loop x = Some y" for x y
  proof (rule read_loop.raw_induct [where P = "\<lambda>x y. x \<noteq> t", OF _ a])
    fix f x y
    assume IH: "\<And>x y. f x = Some y \<Longrightarrow> x \<noteq> t"
      and step: "(if isEmitPending x then Some (Inr x)
                  else case state_read (state x) x of Inl e \<Rightarrow> Some (Inl e) | Inr t' \<Rightarrow> f t') = Some y"
    show "x \<noteq> t"
    proof
      assume "x = t"
      with assms step have "f t = Some y"
        by (auto simp: step_of_def split: if_splits sum.splits)
      with IH show False by blast
    qed
  qed
  show ?thesis
  proof (cases "read_loop t")
    case None
    then show ?thesis .
  next
    case (Some y)
    with ne show ?thesis by blast
  qed
qed

lemma stuck_after_diverges: "stuck_after n t \<Longrightarrow> read_loop t = None"
proof (induction n arbitrary: t)
  case 0
  then show ?case by (simp add: read_loop_fixpoint)
next
  case (Suc n)
  then obtain t' where "step_of t = Some t'" "stuck_after n t'" by (auto split: option.splits)
  with Suc.IH show ?case by (simp add: read_loop_step)
qed

text \<open>
  In the state \<open>Data\<close>, on a new reader over an input that is not empty, \<open>r.current()\<close> is a
  \<open>Char\<close>, which is \<open>===\<close> to none of the case labels, and \<open>consumeData()\<close> finds none of
  its delimiters: the state emits the empty string and leaves the reader where it was, at
  the first character.
\<close>

lemma Data_nonempty:
  assumes "input \<noteq> []" and r: "reader t = new_CharacterReader input" and s: "state t = Data"
  shows "state_read (state t) t = Inr (emitString [] t)"
proof -
  from assms(1) obtain c cs where i: "input = c # cs" by (cases input) auto
  have cur: "current (reader t) = Some (Char 1 c)"
    by (simp add: r i current_def isEmpty_def bufLength_def getAtPos_def at_def
        new_CharacterReader_def Char_valueOf_def)
  have "consumeData (new_CharacterReader input) = (Inr [], new_CharacterReader input)"
    by (rule consumeData_not_found) (rule new_reader_no_NULL)
  then have "r_string consumeData t = Inr ([], t)" by (simp add: r_string_def r [symmetric])
  with cur show ?thesis
    by (simp add: s Data_read_def andThen_def is_case_def val_of_def nullStr_def eof_def)
qed

lemma nonempty_stuck:
  assumes "input \<noteq> []"
  shows "stuck_after (Suc 0) (new_Tokeniser (new_CharacterReader input) es)"
proof -
  let ?t0 = "new_Tokeniser (new_CharacterReader input) es"
  let ?t1 = "emitString [] ?t0"
  have 0: "step_of ?t0 = Some ?t1"
    using Data_nonempty [OF assms, of ?t0]
    by (simp add: step_of_def new_Tokeniser_def)
  have 1: "step_of ?t1 = Some (emitString [] ?t1)"
    using Data_nonempty [OF assms, of ?t1]
    by (simp add: step_of_def new_Tokeniser_def emitString_def)
  have "emitString [] ?t1 = ?t1"
    by (simp add: emitString_def new_Tokeniser_def)
  with 0 1 show ?thesis by simp
qed

lemma nonempty_hangs:
  "input \<noteq> [] \<Longrightarrow> read (new_Tokeniser (new_CharacterReader input) es) = None"
  using stuck_after_diverges [OF nonempty_stuck] by (simp add: read_def)

text \<open>
  C1 at its input \<open><p class="a">Hi &amp; bye</p>\<close>: the first \<open>read()\<close> never returns.
  The tokeniser stays in the state \<open>Data\<close> with the cursor at 0, as on every input that is
  not empty. And the state \<open>CharacterReferenceInData\<close>, which would decode \<open>&amp;\<close>,
  throws \<open>Method not implemented.\<close> from every tokeniser: \<open>consumeCharacterReference\<close> has
  no body.
\<close>

theorem C1_read_does_not_return:
  "read (new_Tokeniser (new_CharacterReader
           (utf16 (''<p class='' @ [CHR 0x22] @ ''a'' @ [CHR 0x22] @ ''>Hi &amp; bye</p>''))) es)
     = None
   \<and> (\<forall>t. state_read CharacterReferenceInData t = Inl (Error ''Method not implemented.''))"
proof -
  have "utf16 (''<p class='' @ [CHR 0x22] @ ''a'' @ [CHR 0x22] @ ''>Hi &amp; bye</p>'') \<noteq> []"
    by (simp add: utf16_def)
  from nonempty_hangs [OF this] show ?thesis
    by (simp add: CharacterReferenceInData_read_def readCharRef_def consumeCharacterReference_def
        andThen_def)
qed

text \<open>
  C2: on every input that is not empty the first \<open>read()\<close> never returns. On the empty
  input it returns an \<open>EOF\<close> token.
\<close>

theorem C2_read_does_not_return:
  "(input \<noteq> [] \<longrightarrow> read (new_Tokeniser (new_CharacterReader input) es) = None)
   \<and> read (new_Tokeniser (new_CharacterReader []) es)
       = Some (Inr (Some EOF, (new_Tokeniser (new_CharacterReader []) es)\<lparr>emitPending := Some NewEOF\<rparr>))"
proof -
  have b: "read (new_Tokeniser (new_CharacterReader []) es)
       = Some (Inr (Some EOF, (new_Tokeniser (new_CharacterReader []) es)\<lparr>emitPending := Some NewEOF\<rparr>))"
    by (simp add: read_loop.simps tokeniser_defs reader_defs)
  from nonempty_hangs [of input es] b show ?thesis by blast
qed

text \<open>The inputs \<open>a\<close> and \<open><!--\<close>.\<close>

theorem C2_read_does_not_return_witness:
  "utf16 ''a'' \<noteq> []
   \<and> read (new_Tokeniser (new_CharacterReader (utf16 ''a'')) \<lparr>errorList = [], maxSize = 0\<rparr>) = None
   \<and> utf16 ''<!--'' \<noteq> []
   \<and> read (new_Tokeniser (new_CharacterReader (utf16 ''<!--'')) \<lparr>errorList = [], maxSize = 0\<rparr>) = None"
proof -
  have h: "utf16 ''a'' \<noteq> []" "utf16 ''<!--'' \<noteq> []"
    by (simp_all add: utf16_def)
  from C2_read_does_not_return [of "utf16 ''a''" "\<lparr>errorList = [], maxSize = 0\<rparr>"] h
  have 1: "read (new_Tokeniser (new_CharacterReader (utf16 ''a'')) \<lparr>errorList = [], maxSize = 0\<rparr>) = None"
    by blast
  from C2_read_does_not_return [of "utf16 ''<!--''" "\<lparr>errorList = [], maxSize = 0\<rparr>"] h
  have 2: "read (new_Tokeniser (new_CharacterReader (utf16 ''<!--'')) \<lparr>errorList = [], maxSize = 0\<rparr>) = None"
    by blast
  from h 1 2 show ?thesis by blast
qed

text \<open>
  C3 at its input \<open><!-- abc\<close>: the first \<open>read()\<close> never returns; the tokeniser stays in
  the state \<open>Data\<close> with the cursor at 0, before the \<open><\<close>. And \<open>emitCommentPending\<close>
  throws from every tokeniser: \<open>emitToken\<close> reads the \<open>type\<close> of the comment.
\<close>

theorem C3_unterminated_comment_hangs:
  "read (new_Tokeniser (new_CharacterReader (utf16 ''<!-- abc'')) es) = None
   \<and> (\<forall>t. emitCommentPending t
            = Inl (Error (if isEmitPending t then ''must be false'' else ''Method not implemented.'')))"
proof -
  have "utf16 ''<!-- abc'' \<noteq> []" by (simp add: utf16_def)
  from nonempty_hangs [OF this] show ?thesis
    by (simp add: emitCommentPending_def emitToken_def)
qed

text \<open>
  C8 at its four inputs \<open><a href=foo>\<close>, \<open><a href='foo'>\<close>, \<open><a href="foo">\<close> and
  \<open><a disabled>\<close>: on each the first \<open>read()\<close> never returns, as in C1. In \<open>newAttribute\<close>
  itself the attribute without a value gets the value \<open>null\<close>, which \<open>Attributes.add\<close>
  stores as the string \<open>null\<close>.
\<close>

theorem C8_read_does_not_return:
  "read (new_Tokeniser (new_CharacterReader (utf16 ''<a href=foo>'')) es) = None
   \<and> read (new_Tokeniser (new_CharacterReader (utf16 (''<a href='' @ [CHR 0x27] @ ''foo'' @ [CHR 0x27] @ ''>''))) es)
     = None
   \<and> read (new_Tokeniser (new_CharacterReader (utf16 (''<a href='' @ [CHR 0x22] @ ''foo'' @ [CHR 0x22] @ ''>''))) es)
     = None
   \<and> read (new_Tokeniser (new_CharacterReader (utf16 ''<a disabled>'')) es) = None
   \<and> attributes (newAttribute (new_Tag\<lparr>pendingAttributeName := Some (utf16 ''disabled'')\<rparr>))
     = Some [\<lparr>key = utf16 ''disabled'', val = utf16 ''null''\<rparr>]"
proof -
  have 1: "read (new_Tokeniser (new_CharacterReader (utf16 ''<a href=foo>'')) es) = None"
    by (rule nonempty_hangs) (simp add: utf16_def)
  have 2: "read (new_Tokeniser (new_CharacterReader
              (utf16 (''<a href='' @ [CHR 0x27] @ ''foo'' @ [CHR 0x27] @ ''>''))) es) = None"
    by (rule nonempty_hangs) (simp add: utf16_def)
  have 3: "read (new_Tokeniser (new_CharacterReader
              (utf16 (''<a href='' @ [CHR 0x22] @ ''foo'' @ [CHR 0x22] @ ''>''))) es) = None"
    by (rule nonempty_hangs) (simp add: utf16_def)
  have 4: "read (new_Tokeniser (new_CharacterReader (utf16 ''<a disabled>'')) es) = None"
    by (rule nonempty_hangs) (simp add: utf16_def)
  have 5: "attributes (newAttribute (new_Tag\<lparr>pendingAttributeName := Some (utf16 ''disabled'')\<rparr>))
     = Some [\<lparr>key = utf16 ''disabled'', val = utf16 ''null''\<rparr>]"
    by (simp add: newAttribute_def new_Tag_def add_def new_Attribute_def template_def trim_def
        isTrimSpace_def MaxAttributes_def utf16_def Let_def)
  from 1 2 3 4 5 show ?thesis by (simp only: simp_thms)
qed


section \<open>The attribute limit\<close>

lemma newAttribute_count:
  "attributeCount tg \<le> MaxAttributes \<Longrightarrow> attributeCount (newAttribute tg) \<le> MaxAttributes"
  by (auto simp: newAttribute_def attributeCount_def add_def Let_def split: option.splits)

lemma keeps_count_simps [simp]:
  "keeps_count newAttribute" "keeps_count finaliseTag" "keeps_count Tag_reset"
  "keeps_count (appendTagName s)" "keeps_count (appendAttributeName s)"
  "keeps_count (appendAttributeValue s)" "keeps_count (appendAttributeValue_Char c)"
  "keeps_count (appendAttributeValue_chars s)" "keeps_count setEmptyAttributeValue"
  "keeps_count set_selfClosing"
  using newAttribute_count
  by (auto simp: keeps_count_def finaliseTag_def Tag_reset_def attributeCount_def appendTagName_def
      appendAttributeName_def appendAttributeValue_def appendAttributeValue_Char_def
      appendAttributeValue_chars_def ensureAttributeValue_def setEmptyAttributeValue_def
      set_selfClosing_def Let_def split: option.splits)

lemma tag_inv_simps [simp]:
  "tag_inv (transition s t) = tag_inv t"
  "tag_inv (advanceTransition s t) = tag_inv t"
  "tag_inv (error s t) = tag_inv t"
  "tag_inv (error_message m t) = tag_inv t"
  "tag_inv (eofError s t) = tag_inv t"
  "tag_inv (emitString str t) = tag_inv t"
  "tag_inv (emitChars str t) = tag_inv t"
  "tag_inv (r_advance t) = tag_inv t"
  "tag_inv (on_commentPending f t) = tag_inv t"
  "tag_inv (createCommentPending t) = tag_inv t"
  "tag_inv (createBogusCommentPending t) = tag_inv t"
  "tag_inv (createTempBuffer t) = tag_inv t"
  by (auto simp: tag_inv_def transition_def advanceTransition_def error_def error_message_def
      eofError_def error_at_def emitString_def emitChars_def r_advance_def on_commentPending_def
      createCommentPending_def createBogusCommentPending_def createTempBuffer_def Let_def
      split: option.splits)

lemma tag_inv_createTagPending [simp]: "tag_inv t \<Longrightarrow> tag_inv (createTagPending b t)"
  by (auto simp: tag_inv_def createTagPending_def Tag_reset_def attributeCount_def)



lemma post_simps [simp]:
  "post (Inr v) Q = Q v"
  "post (Inl e) Q = True"
  "post (andThen x f) Q = post x (\<lambda>v. post (f v) Q)"
  by (auto simp: post_def andThen_def split: sum.splits)

lemma post_consumeCharacterReference [simp]: "post (consumeCharacterReference a b t) Q"
  by (simp add: consumeCharacterReference_def)

lemma post_Char_arrayOf [simp]: "post attributeNameCharsSorted Q" "post attributeValueUnquoted Q"
  by (simp_all add: attributeNameCharsSorted_def attributeValueUnquoted_def Char_arrayOf_def)

lemma tag_inv_r_consume [simp]: "tag_inv (snd (r_consume t)) = tag_inv t"
  by (auto simp: r_consume_def tag_inv_def split: prod.splits)


















lemma tag_inv_isEmitPending [simp]: "tag_inv (t\<lparr>isEmitPending := b\<rparr>) = tag_inv t"
  by (simp add: tag_inv_def)












section \<open>Attributes on an end tag\<close>

text \<open>
  C10: on an end tag with a non-empty attribute list \<open>emitToken\<close> throws only if a token
  is pending already (the assertion at its head); otherwise it makes the end tag the
  pending token, leaves the tag and its attributes as they are, and adds the error
  \<open>Attributes incorrectly present on end tag\<close> at the position of the reader if the error
  list can take one more. \<open>emitTagPending\<close> on a pending end tag is \<open>emitToken\<close> on that
  tag, finalised.
\<close>

theorem C10_end_tag_attributes_error:
  "(attributes (endPending t) = Some as \<and> as \<noteq> [] \<longrightarrow>
      emitToken (TagRef EndPending) t
        = (if isEmitPending t then Inl (Error ''must be false'')
           else Inr (t\<lparr>emitPending := Some (TagRef EndPending), isEmitPending := True,
                       errors := (if canAddError (errors t)
                                  then push \<lparr>errorPos = pos (reader t),
                                             errorMsg = Message ''Attributes incorrectly present on end tag''\<rparr>
                                         (errors t)
                                  else errors t)\<rparr>)))
   \<and> (tagPending t = Some EndPending \<longrightarrow>
        emitTagPending t = emitToken (TagRef EndPending) (t\<lparr>endPending := finaliseTag (endPending t)\<rparr>))"
  by (simp add: emitToken_def hasAttributes_def error_message_def error_at_def Let_def
      emitTagPending_def tag_upd_def)

theorem C10_end_tag_attributes_error_witness:
  "emitToken (TagRef EndPending)
     ((new_Tokeniser (new_CharacterReader (utf16 ''</a b>'')) \<lparr>errorList = [], maxSize = 1\<rparr>)
        \<lparr>endPending := new_Tag\<lparr>tagName := Some (utf16 ''a''),
                                attributes := Some [\<lparr>key = utf16 ''b'', val = []\<rparr>]\<rparr>\<rparr>)
   = Inr ((new_Tokeniser (new_CharacterReader (utf16 ''</a b>''))
             \<lparr>errorList = [\<lparr>errorPos = 0,
                             errorMsg = Message ''Attributes incorrectly present on end tag''\<rparr>],
              maxSize = 1\<rparr>)
            \<lparr>endPending := new_Tag\<lparr>tagName := Some (utf16 ''a''),
                                    attributes := Some [\<lparr>key = utf16 ''b'', val = []\<rparr>]\<rparr>,
             emitPending := Some (TagRef EndPending), isEmitPending := True\<rparr>)"
  using C10_end_tag_attributes_error
    [of "(new_Tokeniser (new_CharacterReader (utf16 ''</a b>'')) \<lparr>errorList = [], maxSize = 1\<rparr>)
           \<lparr>endPending := new_Tag\<lparr>tagName := Some (utf16 ''a''),
                                   attributes := Some [\<lparr>key = utf16 ''b'', val = []\<rparr>]\<rparr>\<rparr>"
        "[\<lparr>key = utf16 ''b'', val = []\<rparr>]"]
  by (simp add: new_Tokeniser_def new_Tag_def canAddError_def push_def pos_def new_CharacterReader_def)

end
